theory Spec2Isabelle
  imports Main
begin

section \<open>Data model (types.ts)\<close>

datatype AppState = SETUP | OUTLINE | WRITING | FINAL

datatype genre = Fiction | NonFiction

datatype writingStyle =
  Conversational | Storytelling | Practical | Hybrid | Research | Inspirational | Raw

datatype paragraphLength = Short | Standard | Long

datatype language = English | Polish

text \<open>
  \<open>BookDetails.chapters\<close> (the optional chapter ideas) is named \<open>chapterIdeas\<close> here,
  since \<open>BookOutline.chapters\<close> needs the name. JavaScript numbers that hold counts and
  indices are integers.
\<close>

record BookDetails =
  theme :: string
  genre :: genre
  audience :: string
  writingStyle :: writingStyle
  paragraphLength :: paragraphLength
  chapterIdeas :: string
  penName :: string
  numChapters :: int
  numPagesPerChapter :: int
  language :: language

record ChapterOutline =
  title :: string
  description :: string

record BookOutline =
  titleOptions :: "string list"
  summary :: string
  chapters :: "ChapterOutline list"

text \<open>
  The service returns \<open>Partial<BookMatter>\<close> objects and the controller casts their merge
  to \<open>BookMatter\<close>; a field is \<open>None\<close> when the object has no such key.
\<close>

record BookMatter =
  copyright :: "string option"
  dedication :: "string option"
  acknowledgments :: "string option"
  introduction :: "string option"
  conclusion :: "string option"
  appendix :: "string option"
  glossary :: "string option"
  authorBio :: "string option"

definition noMatter :: BookMatter where
  "noMatter = \<lparr>copyright = None, dedication = None, acknowledgments = None,
     introduction = None, conclusion = None, appendix = None, glossary = None,
     authorBio = None\<rparr>"

text \<open>Object spread \<open>{ ...a, ...b }\<close>: a key of \<open>b\<close> overrides the key of \<open>a\<close>.\<close>

definition override :: "'a option \<Rightarrow> 'a option \<Rightarrow> 'a option" where
  "override x y = (case y of None \<Rightarrow> x | Some v \<Rightarrow> Some v)"

definition spreadMatter :: "BookMatter \<Rightarrow> BookMatter \<Rightarrow> BookMatter" where
  "spreadMatter a b =
     \<lparr>copyright = override (copyright a) (copyright b),
      dedication = override (dedication a) (dedication b),
      acknowledgments = override (acknowledgments a) (acknowledgments b),
      introduction = override (introduction a) (introduction b),
      conclusion = override (conclusion a) (conclusion b),
      appendix = override (appendix a) (appendix b),
      glossary = override (glossary a) (glossary b),
      authorBio = override (authorBio a) (authorBio b)\<rparr>"

section \<open>JavaScript arrays\<close>

text \<open>
  An array element is a value, \<open>null\<close>, \<open>undefined\<close>, or nothing at all: a hole
  (\<open>Absent\<close>), left by a write beyond the end. A hole reads as \<open>undefined\<close>, a spread
  copies it as \<open>undefined\<close>, and \<open>map\<close> and \<open>forEach\<close> skip it. \<open>bookContent\<close> is a
  \<open>string[][]\<close>.
\<close>

datatype 'a slot = Absent | Undefined | Null | Val 'a

type_synonym 'a js_array = "'a slot list"

type_synonym BookContent = "string js_array js_array"

text \<open>\<open>xs[i]\<close>: a hole and an index out of range read \<open>undefined\<close>.\<close>

definition js_get :: "'a js_array \<Rightarrow> int \<Rightarrow> 'a slot" where
  "js_get xs i =
     (if 0 \<le> i \<and> i < int (length xs)
      then (case xs ! nat i of Absent \<Rightarrow> Undefined | x \<Rightarrow> x)
      else Undefined)"

text \<open>
  \<open>xs[i] = v\<close>: a write at or beyond the end extends the array and leaves holes in
  between. A negative index names a property, not an element: the elements stay as they
  are (properties are not kept here: \<open>JSON.stringify\<close> and the spread drop them).
\<close>

definition js_set :: "'a js_array \<Rightarrow> int \<Rightarrow> 'a \<Rightarrow> 'a js_array" where
  "js_set xs i v =
     (if i < 0 then xs
      else if i < int (length xs) then xs[nat i := Val v]
      else xs @ replicate (nat i - length xs) Absent @ [Val v])"

text \<open>\<open>bookContent[c]?.[p]\<close>\<close>

definition get_page :: "BookContent \<Rightarrow> int \<Rightarrow> int \<Rightarrow> string slot" where
  "get_page bc c p = (case js_get bc c of Val pages \<Rightarrow> js_get pages p | _ \<Rightarrow> Undefined)"

text \<open>
  \<open>bookContent.map(chapter => [...chapter])\<close>: \<open>map\<close> skips the holes of the outer
  array and leaves them holes, the spread copies a chapter (its holes become
  \<open>undefined\<close>) and throws a TypeError on \<open>null\<close> and on \<open>undefined\<close>.
\<close>

definition spreadPages :: "'a js_array \<Rightarrow> 'a js_array" where
  "spreadPages pages = map (\<lambda>x. case x of Absent \<Rightarrow> Undefined | _ \<Rightarrow> x) pages"

definition spreadChapters :: "BookContent \<Rightarrow> BookContent" where
  "spreadChapters bc = map (\<lambda>x. case x of Val pages \<Rightarrow> Val (spreadPages pages) | _ \<Rightarrow> x) bc"

definition copy_content :: "BookContent \<Rightarrow> BookContent option" where
  "copy_content bc =
     (if Null \<in> set bc \<or> Undefined \<in> set bc then None else Some (spreadChapters bc))"

text \<open>\<open>if (!nc[c]) { nc[c] = []; }\<close>\<close>

definition ensure_chapter :: "BookContent \<Rightarrow> int \<Rightarrow> BookContent" where
  "ensure_chapter nc c = (case js_get nc c of Val pages \<Rightarrow> nc | _ \<Rightarrow> js_set nc c [])"

text \<open>\<open>if (nc[c]) { nc[c][p] = v; }\<close>\<close>

definition set_page :: "BookContent \<Rightarrow> int \<Rightarrow> int \<Rightarrow> string \<Rightarrow> BookContent" where
  "set_page nc c p v =
     (case js_get nc c of Val pages \<Rightarrow> js_set nc c (js_set pages p v) | _ \<Rightarrow> nc)"

text \<open>
  \<open>if (!nc[c]) { nc[c] = []; } nc[c][p] = v;\<close> For a negative \<open>c\<close> both writes go to
  a property and no element changes, which is what \<open>set_page\<close> gives there.
\<close>

definition commit_page :: "BookContent \<Rightarrow> int \<Rightarrow> int \<Rightarrow> string \<Rightarrow> BookContent" where
  "commit_page nc c p v = set_page (ensure_chapter nc c) c p v"

text \<open>
  \<open>Array(n).fill(null).map(() => [])\<close>: \<open>n\<close> empty chapters; \<open>Array(n)\<close> throws a
  RangeError for a negative \<open>n\<close>.
\<close>

definition emptyChapters :: "int \<Rightarrow> BookContent option" where
  "emptyChapters n = (if n < 0 then None else Some (replicate (nat n) (Val [])))"

section \<open>The generator service (services/geminiService.ts)\<close>

text \<open>
  The model behind \<open>ai.models.generateContent\<close> is outside the program. A reply to a
  JSON request is a rejected call (with its message), a text that \<open>JSON.parse\<close> refuses,
  or a parsed object of the shape of the response schema; a reply to a text request is
  a rejected call or the text. The replies are given per request, by the arguments the
  prompt is built from.
\<close>

datatype 'a reply = Rejected string | Unparseable | Parsed 'a

record PageChange =
  chapterIndex :: int
  pageIndex :: int
  newPageContent :: string

record ai =
  outlineReply :: "BookDetails \<Rightarrow> BookOutline reply"
  revisedOutlineReply :: "BookDetails \<Rightarrow> BookOutline \<Rightarrow> string \<Rightarrow> BookOutline reply"
  pageReply :: "BookDetails \<Rightarrow> BookOutline \<Rightarrow> int \<Rightarrow> int \<Rightarrow> string option \<Rightarrow> int \<Rightarrow> string + string"
  revisedPageReply :: "string \<Rightarrow> string \<Rightarrow> BookDetails \<Rightarrow> string + string"
  frontMatterReply :: "BookDetails \<Rightarrow> BookOutline \<Rightarrow> BookMatter reply"
  backMatterReply :: "BookDetails \<Rightarrow> BookOutline \<Rightarrow> BookContent \<Rightarrow> BookMatter reply"
  fullRevisionReply ::
    "BookDetails \<Rightarrow> BookOutline \<Rightarrow> BookMatter \<Rightarrow> BookContent \<Rightarrow> string \<Rightarrow>
       (BookMatter \<times> PageChange list) reply"

definition parsed :: "string \<Rightarrow> 'a reply \<Rightarrow> string + 'a" where
  "parsed invalid r =
     (case r of Rejected e \<Rightarrow> Inl e | Unparseable \<Rightarrow> Inl invalid | Parsed x \<Rightarrow> Inr x)"

definition generateOutline :: "ai \<Rightarrow> BookDetails \<Rightarrow> string + BookOutline" where
  "generateOutline a details =
     parsed ''The AI returned an invalid outline format. Please try again.''
       (outlineReply a details)"

definition reviseOutline ::
  "ai \<Rightarrow> BookDetails \<Rightarrow> BookOutline \<Rightarrow> string \<Rightarrow> string + BookOutline" where
  "reviseOutline a details originalOutline feedback =
     parsed ''The AI returned an invalid revised outline format. Please try again.''
       (revisedOutlineReply a details originalOutline feedback)"

text \<open>
  \<open>writePage\<close> reads \<open>outline.chapters[chapterIndex].title\<close> while it builds the
  prompt: a TypeError when the outline has no such chapter (the message is the
  engine's).
\<close>

definition noSuchChapter :: string where
  "noSuchChapter = ''Cannot read properties of undefined (reading 'title')''"

definition writePage ::
  "ai \<Rightarrow> BookDetails \<Rightarrow> BookOutline \<Rightarrow> int \<Rightarrow> int \<Rightarrow> string option \<Rightarrow> int \<Rightarrow> string + string" where
  "writePage a details outline chapIdx pageIdx previousPageContent totalPagesPerChapter =
     (if 0 \<le> chapIdx \<and> chapIdx < int (length (chapters outline))
      then pageReply a details outline chapIdx pageIdx previousPageContent totalPagesPerChapter
      else Inl noSuchChapter)"

definition revisePage :: "ai \<Rightarrow> string \<Rightarrow> string \<Rightarrow> BookDetails \<Rightarrow> string + string" where
  "revisePage a originalContent feedback details =
     revisedPageReply a originalContent feedback details"

definition generateFrontMatter :: "ai \<Rightarrow> BookDetails \<Rightarrow> BookOutline \<Rightarrow> string + BookMatter" where
  "generateFrontMatter a details outline =
     parsed ''The AI returned invalid front matter.'' (frontMatterReply a details outline)"

definition generateBackMatter ::
  "ai \<Rightarrow> BookDetails \<Rightarrow> BookOutline \<Rightarrow> BookContent \<Rightarrow> string + BookMatter" where
  "generateBackMatter a details outline content =
     parsed ''The AI returned invalid back matter.'' (backMatterReply a details outline content)"

text \<open>
  \<open>reviseFullBook\<close> puts the first hundred characters of every page into its prompt:
  \<open>content.map((pages, cIdx) => ... pages.map((p, pIdx) => ... p.substring(0, 100) ...))\<close>.
  Both \<open>map\<close>s skip holes; \<open>pages.map\<close> on a chapter that is \<open>null\<close> or \<open>undefined\<close>, and
  \<open>p.substring\<close> on a page that is \<open>null\<close> or \<open>undefined\<close>, throw a TypeError (the
  messages are the engine's), the first one in chapter-major order, before the request is
  sent.
\<close>

fun firstThrown :: "string option list \<Rightarrow> string option" where
  "firstThrown [] = None"
| "firstThrown (None # rest) = firstThrown rest"
| "firstThrown (Some message # rest) = Some message"

definition pagePrompt :: "string slot \<Rightarrow> string option" where
  "pagePrompt p =
     (case p of
        Undefined \<Rightarrow> Some ''Cannot read properties of undefined (reading 'substring')''
      | Null \<Rightarrow> Some ''Cannot read properties of null (reading 'substring')''
      | _ \<Rightarrow> None)"

definition chapterPrompt :: "string js_array slot \<Rightarrow> string option" where
  "chapterPrompt pages =
     (case pages of
        Absent \<Rightarrow> None
      | Undefined \<Rightarrow> Some ''Cannot read properties of undefined (reading 'map')''
      | Null \<Rightarrow> Some ''Cannot read properties of null (reading 'map')''
      | Val ps \<Rightarrow> firstThrown (map pagePrompt ps))"

definition promptError :: "BookContent \<Rightarrow> string option" where
  "promptError content = firstThrown (map chapterPrompt content)"

definition reviseFullBook ::
  "ai \<Rightarrow> BookDetails \<Rightarrow> BookOutline \<Rightarrow> BookMatter \<Rightarrow> BookContent \<Rightarrow> string \<Rightarrow>
     string + (BookMatter \<times> PageChange list)" where
  "reviseFullBook a details outline matter content feedback =
     (case promptError content of
        Some message \<Rightarrow> Inl message
      | None \<Rightarrow>
          parsed ''The AI returned an invalid format for the final revision.''
            (fullRevisionReply a details outline matter content feedback))"

section \<open>The controller (App)\<close>

text \<open>
  What \<open>JSON.stringify\<close> writes of a \<open>SavedState\<close> and \<open>JSON.parse\<close> reads back. In
  JSON an array has no holes: a hole or \<open>undefined\<close> element is written as \<open>null\<close>. A
  snapshot of an older version of the program has no view cursor.
\<close>

record SavedState =
  savedAppState :: AppState
  savedBookDetails :: BookDetails
  savedBookOutline :: BookOutline
  savedBookContent :: BookContent
  savedBookMatter :: "BookMatter option"
  savedCurrentPageContent :: string
  savedCurrentChapterIndex :: int
  savedCurrentPageIndex :: int
  savedViewedChapterIndex :: "int option"
  savedViewedPageIndex :: "int option"

text \<open>The item under \<open>DRAFT_KEY\<close>: a text that \<open>JSON.parse\<close> refuses, or a snapshot.\<close>

datatype draft = Corrupt | Draft SavedState

definition json_slot :: "('a \<Rightarrow> 'a) \<Rightarrow> 'a slot \<Rightarrow> 'a slot" where
  "json_slot f x = (case x of Val v \<Rightarrow> Val (f v) | _ \<Rightarrow> Null)"

definition json_content :: "BookContent \<Rightarrow> BookContent" where
  "json_content bc = map (json_slot (map (json_slot id))) bc"

text \<open>The calls the controller makes to the service, in order.\<close>

datatype gen_call =
  CallGenerateOutline | CallReviseOutline | CallWritePage int int | CallRevisePage
  | CallGenerateFrontMatter | CallGenerateBackMatter | CallReviseFullBook

text \<open>
  The state of \<open>App\<close> (its \<open>useState\<close> cells, without the loading message and the
  auto-save indicator, which are display texts), the item of \<open>localStorage\<close>, whether
  \<open>localStorage.setItem\<close> throws (the storage is full), and the log of service calls.
\<close>

record world =
  appState :: AppState
  bookDetails :: "BookDetails option"
  bookOutline :: "BookOutline option"
  bookContent :: BookContent
  bookMatter :: "BookMatter option"
  currentPageContent :: string
  currentChapterIndex :: int
  currentPageIndex :: int
  viewedChapterIndex :: int
  viewedPageIndex :: int
  isLoading :: bool
  error :: "string option"
  hasDraft :: bool
  draftStore :: "draft option"
  storageFull :: bool
  calls :: "gen_call list"

definition handleError :: "string \<Rightarrow> world \<Rightarrow> world" where
  "handleError message w = w\<lparr>error := Some message, isLoading := False\<rparr>"

definition stateToSave :: "world \<Rightarrow> BookDetails \<Rightarrow> BookOutline \<Rightarrow> SavedState" where
  "stateToSave r details outline =
     \<lparr>savedAppState = appState r,
      savedBookDetails = details,
      savedBookOutline = outline,
      savedBookContent = json_content (bookContent r),
      savedBookMatter = bookMatter r,
      savedCurrentPageContent = currentPageContent r,
      savedCurrentChapterIndex = currentChapterIndex r,
      savedCurrentPageIndex = currentPageIndex r,
      savedViewedChapterIndex = Some (viewedChapterIndex r),
      savedViewedPageIndex = Some (viewedPageIndex r)\<rparr>"

text \<open>
  \<open>handleSaveDraft\<close> is a \<open>useCallback\<close> closure: it saves the state \<open>r\<close> of the render
  that created it. Called from inside another handler, after that handler's \<open>set...\<close>
  calls, it still saves the state the handler started from; \<open>w\<close> is the world it runs
  in.
\<close>

definition saveDraftOf :: "world \<Rightarrow> world \<Rightarrow> world" where
  "saveDraftOf r w =
     (case (bookDetails r, bookOutline r) of
        (Some details, Some outline) \<Rightarrow>
          if storageFull w
          then handleError
            ''Could not save your progress. Your browser's storage might be full.'' w
          else w\<lparr>draftStore := Some (Draft (stateToSave r details outline))\<rparr>
      | _ \<Rightarrow> w)"

definition handleSaveDraft :: "world \<Rightarrow> world" where
  "handleSaveDraft w = saveDraftOf w w"

definition handleLoadDraft :: "world \<Rightarrow> world" where
  "handleLoadDraft w =
     (case draftStore w of
        None \<Rightarrow> w
      | Some Corrupt \<Rightarrow>
          (handleError
             ''The saved draft appears to be corrupted and could not be loaded.'' w)
            \<lparr>draftStore := None, hasDraft := False\<rparr>
      | Some (Draft loadedState) \<Rightarrow>
          w\<lparr>appState := savedAppState loadedState,
            bookDetails := Some (savedBookDetails loadedState),
            bookOutline := Some (savedBookOutline loadedState),
            bookContent := savedBookContent loadedState,
            bookMatter := savedBookMatter loadedState,
            currentPageContent := savedCurrentPageContent loadedState,
            currentChapterIndex := savedCurrentChapterIndex loadedState,
            currentPageIndex := savedCurrentPageIndex loadedState,
            viewedChapterIndex :=
              (case savedViewedChapterIndex loadedState of
                 Some v \<Rightarrow> v | None \<Rightarrow> savedCurrentChapterIndex loadedState),
            viewedPageIndex :=
              (case savedViewedPageIndex loadedState of
                 Some v \<Rightarrow> v | None \<Rightarrow> savedCurrentPageIndex loadedState),
            hasDraft := False\<rparr>)"

definition handleStartOutlineGeneration :: "ai \<Rightarrow> BookDetails \<Rightarrow> world \<Rightarrow> world" where
  "handleStartOutlineGeneration a details w =
     (let w1 = w\<lparr>isLoading := True, error := None, draftStore := None, hasDraft := False,
                  calls := calls w @ [CallGenerateOutline]\<rparr>
      in case generateOutline a details of
           Inr outline \<Rightarrow>
             w1\<lparr>bookDetails := Some details, bookOutline := Some outline,
                appState := OUTLINE, isLoading := False\<rparr>
         | Inl message \<Rightarrow> (handleError message w1)\<lparr>isLoading := False\<rparr>)"

definition handleReviseOutline :: "ai \<Rightarrow> string \<Rightarrow> world \<Rightarrow> world" where
  "handleReviseOutline a feedback w =
     (case (bookDetails w, bookOutline w) of
        (Some details, Some outline) \<Rightarrow>
          (let w1 = w\<lparr>isLoading := True, error := None,
                       calls := calls w @ [CallReviseOutline]\<rparr>
           in case reviseOutline a details outline feedback of
                Inr revisedOutlineData \<Rightarrow>
                  w1\<lparr>bookOutline := Some revisedOutlineData, isLoading := False\<rparr>
              | Inl message \<Rightarrow> (handleError message w1)\<lparr>isLoading := False\<rparr>)
      | _ \<Rightarrow> w)"

definition invalidArrayLength :: string where
  "invalidArrayLength = ''Invalid array length''"

definition notIterable :: string where
  "notIterable = ''chapter is not iterable''"

text \<open>
  In \<open>handleStartWriting\<close> the buffer and the cursors are set before
  \<open>Array(numChapters)\<close> is evaluated, so its RangeError leaves them set.
\<close>

definition handleStartWriting :: "ai \<Rightarrow> world \<Rightarrow> world" where
  "handleStartWriting a w =
     (case (bookDetails w, bookOutline w) of
        (Some details, Some outline) \<Rightarrow>
          (let w1 = w\<lparr>isLoading := True, error := None,
                       calls := calls w @ [CallWritePage 0 0]\<rparr>
           in case writePage a details outline 0 0 None (numPagesPerChapter details) of
                Inr content \<Rightarrow>
                  (let w2 = w1\<lparr>currentPageContent := content,
                                currentChapterIndex := 0, currentPageIndex := 0,
                                viewedChapterIndex := 0, viewedPageIndex := 0\<rparr>
                   in case emptyChapters (numChapters details) of
                        Some noPages \<Rightarrow>
                          w2\<lparr>bookContent := noPages, appState := WRITING, isLoading := False\<rparr>
                      | None \<Rightarrow> (handleError invalidArrayLength w2)\<lparr>isLoading := False\<rparr>)
              | Inl message \<Rightarrow> (handleError message w1)\<lparr>isLoading := False\<rparr>)
      | _ \<Rightarrow> w)"

text \<open>
  The two loops of \<open>handleStartAutomaticWriting\<close>, over the local variables
  \<open>allContent\<close> and \<open>previousPage\<close> and the log of calls. A failed \<open>writePage\<close> leaves
  the loops with its message.
\<close>

type_synonym loop_state = "BookContent \<times> string option \<times> gen_call list"

function pageLoop ::
  "ai \<Rightarrow> BookDetails \<Rightarrow> BookOutline \<Rightarrow> int \<Rightarrow> int \<Rightarrow> loop_state \<Rightarrow>
     (string \<times> gen_call list) + loop_state" where
  "pageLoop a details outline chapIdx pageIdx (allContent, previousPage, log) =
     (if pageIdx < numPagesPerChapter details then
        (case writePage a details outline chapIdx pageIdx previousPage
                (numPagesPerChapter details) of
           Inl message \<Rightarrow> Inl (message, log @ [CallWritePage chapIdx pageIdx])
         | Inr pageContent \<Rightarrow>
             pageLoop a details outline chapIdx (pageIdx + 1)
               (set_page allContent chapIdx pageIdx pageContent, Some pageContent,
                log @ [CallWritePage chapIdx pageIdx]))
      else Inr (allContent, previousPage, log))"
  by pat_completeness auto
termination
  by (relation "measure (\<lambda>(a, details, outline, chapIdx, pageIdx, st).
        nat (numPagesPerChapter details - pageIdx))") auto

function chapterLoop ::
  "ai \<Rightarrow> BookDetails \<Rightarrow> BookOutline \<Rightarrow> int \<Rightarrow> loop_state \<Rightarrow>
     (string \<times> gen_call list) + loop_state" where
  "chapterLoop a details outline chapIdx st =
     (if chapIdx < numChapters details then
        (case pageLoop a details outline chapIdx 0 st of
           Inl failure \<Rightarrow> Inl failure
         | Inr st' \<Rightarrow> chapterLoop a details outline (chapIdx + 1) st')
      else Inr st)"
  by pat_completeness auto
termination
  by (relation "measure (\<lambda>(a, details, outline, chapIdx, st).
        nat (numChapters details - chapIdx))") auto

declare pageLoop.simps [simp del]
declare chapterLoop.simps [simp del]

definition handleStartAutomaticWriting :: "ai \<Rightarrow> world \<Rightarrow> world" where
  "handleStartAutomaticWriting a w =
     (case (bookDetails w, bookOutline w) of
        (Some details, Some outline) \<Rightarrow>
          (let w1 = w\<lparr>isLoading := True, error := None\<rparr>;
               log1 = calls w @ [CallGenerateFrontMatter]
           in case generateFrontMatter a details outline of
                Inl message \<Rightarrow> (handleError message w1)\<lparr>isLoading := False, calls := log1\<rparr>
              | Inr frontMatterData \<Rightarrow>
                  (case emptyChapters (numChapters details) of
                     None \<Rightarrow>
                       (handleError invalidArrayLength w1)\<lparr>isLoading := False, calls := log1\<rparr>
                   | Some noPages \<Rightarrow>
                       (case chapterLoop a details outline 0 (noPages, None, log1) of
                          Inl (message, log2) \<Rightarrow>
                            (handleError message w1)\<lparr>isLoading := False, calls := log2\<rparr>
                        | Inr (allContent, previousPage, log2) \<Rightarrow>
                            (let w2 = w1\<lparr>bookContent := allContent,
                                          calls := log2 @ [CallGenerateBackMatter]\<rparr>
                             in case generateBackMatter a details outline allContent of
                                  Inl message \<Rightarrow> (handleError message w2)\<lparr>isLoading := False\<rparr>
                                | Inr backMatterData \<Rightarrow>
                                    (saveDraftOf w
                                       (w2\<lparr>bookMatter :=
                                              Some (spreadMatter frontMatterData backMatterData),
                                           appState := FINAL\<rparr>))
                                      \<lparr>isLoading := False\<rparr>))))
      | _ \<Rightarrow> w)"

text \<open>
  \<open>if (!bookDetails || !currentPageContent) return;\<close>: the empty string is falsy. The
  copy of the content is made inside the \<open>try\<close>, after the service call.
\<close>

definition handleRevisePage :: "ai \<Rightarrow> string \<Rightarrow> world \<Rightarrow> world" where
  "handleRevisePage a feedback w =
     (case bookDetails w of
        None \<Rightarrow> w
      | Some details \<Rightarrow>
          if currentPageContent w = [] then w
          else
            (let w1 = w\<lparr>isLoading := True, error := None,
                         calls := calls w @ [CallRevisePage]\<rparr>
             in case revisePage a (currentPageContent w) feedback details of
                  Inl message \<Rightarrow> (handleError message w1)\<lparr>isLoading := False\<rparr>
                | Inr revisedContent \<Rightarrow>
                    (case copy_content (bookContent w) of
                       None \<Rightarrow> (handleError notIterable w1)\<lparr>isLoading := False\<rparr>
                     | Some newBookContent \<Rightarrow>
                         w1\<lparr>bookContent :=
                              commit_page newBookContent (viewedChapterIndex w)
                                (viewedPageIndex w) revisedContent,
                            currentPageContent := revisedContent,
                            isLoading := False\<rparr>)))"

text \<open>
  \<open>handleApproveAndContinue\<close>. The page is committed (\<open>setBookContent\<close>) before any
  service call. The calls for the final sections are outside a \<open>try\<close>: when one of them
  fails the handler stops there, with \<open>isLoading\<close> still set and no error shown. A
  TypeError of the first line (a \<open>null\<close> chapter) stops the handler before it has set
  anything.
\<close>

definition nextPosition :: "BookDetails \<Rightarrow> int \<times> int \<Rightarrow> int \<times> int" where
  "nextPosition details pos =
     (let nextPageIndex = snd pos + 1; nextChapterIndex = fst pos
      in if nextPageIndex \<ge> numPagesPerChapter details
         then (nextChapterIndex + 1, 0)
         else (nextChapterIndex, nextPageIndex))"

definition handleApproveAndContinue :: "ai \<Rightarrow> world \<Rightarrow> world" where
  "handleApproveAndContinue a w =
     (case (bookDetails w, bookOutline w) of
        (Some details, Some outline) \<Rightarrow>
          (case copy_content (bookContent w) of
             None \<Rightarrow> w
           | Some copied \<Rightarrow>
               (let newBookContent =
                      commit_page copied (currentChapterIndex w) (currentPageIndex w)
                        (currentPageContent w);
                    w1 = w\<lparr>bookContent := newBookContent\<rparr>;
                    nextChapterIndex =
                      fst (nextPosition details (currentChapterIndex w, currentPageIndex w));
                    nextPageIndex =
                      snd (nextPosition details (currentChapterIndex w, currentPageIndex w))
                in if nextChapterIndex \<ge> numChapters details then
                     (let w2 = w1\<lparr>isLoading := True,
                                   calls := calls w @ [CallGenerateFrontMatter]\<rparr>
                      in case generateFrontMatter a details outline of
                           Inl message \<Rightarrow> w2
                         | Inr frontData \<Rightarrow>
                             (let w3 = w2\<lparr>calls := calls w2 @ [CallGenerateBackMatter]\<rparr>
                              in case generateBackMatter a details outline newBookContent of
                                   Inl message \<Rightarrow> w3
                                 | Inr backData \<Rightarrow>
                                     saveDraftOf w
                                       (w3\<lparr>bookMatter := Some (spreadMatter frontData backData),
                                           isLoading := False,
                                           appState := FINAL\<rparr>)))
                   else
                     (let w2 = w1\<lparr>isLoading := True, error := None,
                                   calls := calls w @
                                     [CallWritePage nextChapterIndex nextPageIndex]\<rparr>
                      in case writePage a details outline nextChapterIndex nextPageIndex
                                (Some (currentPageContent w)) (numPagesPerChapter details) of
                           Inr content \<Rightarrow>
                             w2\<lparr>currentPageContent := content,
                                currentChapterIndex := nextChapterIndex,
                                currentPageIndex := nextPageIndex,
                                viewedChapterIndex := nextChapterIndex,
                                viewedPageIndex := nextPageIndex,
                                isLoading := False\<rparr>
                         | Inl message \<Rightarrow> (handleError message w2)\<lparr>isLoading := False\<rparr>)))
      | _ \<Rightarrow> w)"

datatype direction = Prev | Next

text \<open>\<open>bookContent[c]?.[p] || ''\<close>\<close>

definition pageText :: "BookContent \<Rightarrow> int \<Rightarrow> int \<Rightarrow> string" where
  "pageText bc c p = (case get_page bc c p of Val t \<Rightarrow> t | _ \<Rightarrow> [])"

definition handleNavigate :: "direction \<Rightarrow> world \<Rightarrow> world" where
  "handleNavigate dir w =
     (case bookDetails w of
        None \<Rightarrow> w
      | Some details \<Rightarrow>
          (let newViewed =
                 (case dir of
                    Next \<Rightarrow>
                      (if viewedPageIndex w + 1 \<ge> numPagesPerChapter details
                       then (viewedChapterIndex w + 1, 0)
                       else (viewedChapterIndex w, viewedPageIndex w + 1))
                  | Prev \<Rightarrow>
                      (if viewedPageIndex w - 1 < 0
                       then (viewedChapterIndex w - 1, numPagesPerChapter details - 1)
                       else (viewedChapterIndex w, viewedPageIndex w - 1)));
               newViewedChapter = fst newViewed;
               newViewedPage = snd newViewed;
               isNavigatingTooFar =
                 (newViewedChapter > currentChapterIndex w \<or>
                  (newViewedChapter = currentChapterIndex w \<and>
                   newViewedPage > currentPageIndex w))
           in if isNavigatingTooFar \<or> newViewedChapter < 0 then w
              else w\<lparr>viewedChapterIndex := newViewedChapter,
                     viewedPageIndex := newViewedPage,
                     currentPageContent :=
                       pageText (bookContent w) newViewedChapter newViewedPage\<rparr>))"

text \<open>
  \<open>handleFinalRevision\<close>. The matter is set before the content is copied; the copy
  throws on a \<open>null\<close> or \<open>undefined\<close> chapter, but with such a content \<open>reviseFullBook\<close>
  has thrown already. \<open>isLoading\<close> is cleared by a timer 1.5 seconds after the revisions
  are applied; here it is still set.
\<close>

definition applyChange :: "BookContent \<Rightarrow> PageChange \<Rightarrow> BookContent" where
  "applyChange newContent change =
     set_page newContent (chapterIndex change) (pageIndex change) (newPageContent change)"

definition handleFinalRevision :: "ai \<Rightarrow> string \<Rightarrow> world \<Rightarrow> world" where
  "handleFinalRevision a feedback w =
     (case (bookDetails w, bookOutline w, bookMatter w) of
        (Some details, Some outline, Some matter) \<Rightarrow>
          (let w1 = w\<lparr>isLoading := True, error := None,
                       calls := calls w @ [CallReviseFullBook]\<rparr>
           in case reviseFullBook a details outline matter (bookContent w) feedback of
                Inl message \<Rightarrow> handleError message w1
              | Inr (revisedMatter, revisedContent) \<Rightarrow>
                  (let w2 = w1\<lparr>bookMatter := Some (spreadMatter matter revisedMatter)\<rparr>
                   in case copy_content (bookContent w) of
                        None \<Rightarrow> handleError notIterable w2
                      | Some newContent \<Rightarrow>
                          w2\<lparr>bookContent := foldl applyChange newContent revisedContent\<rparr>))
      | _ \<Rightarrow> w)"

definition handleStartOver :: "world \<Rightarrow> world" where
  "handleStartOver w =
     w\<lparr>draftStore := None, hasDraft := False, appState := SETUP,
       bookDetails := None, bookOutline := None, bookContent := [], bookMatter := None,
       currentPageContent := [], currentChapterIndex := 0, currentPageIndex := 0,
       viewedChapterIndex := 0, viewedPageIndex := 0, error := None\<rparr>"

text \<open>
  The effect that saves the draft runs after a render in which one of its dependencies
  (the saved cells, through \<open>handleSaveDraft\<close>) has changed, in the Writing and Final
  phases. It is taken once here, after a handler has finished, with the cells compared
  by value.
\<close>

definition savedCells ::
  "world \<Rightarrow> AppState \<times> BookDetails option \<times> BookOutline option \<times> BookContent \<times>
     BookMatter option \<times> string \<times> (int \<times> int) \<times> (int \<times> int)" where
  "savedCells w =
     (appState w, bookDetails w, bookOutline w, bookContent w, bookMatter w,
      currentPageContent w, (currentChapterIndex w, currentPageIndex w),
      (viewedChapterIndex w, viewedPageIndex w))"

definition afterRender :: "world \<Rightarrow> world \<Rightarrow> world" where
  "afterRender rendered w =
     (if savedCells w \<noteq> savedCells rendered \<and> (appState w = WRITING \<or> appState w = FINAL)
      then handleSaveDraft w else w)"

definition dispatch :: "(world \<Rightarrow> world) \<Rightarrow> world \<Rightarrow> world" where
  "dispatch handler w = afterRender w (handler w)"

text \<open>The auto-save timer exists in the Writing phase only.\<close>

definition autoSaveTick :: "world \<Rightarrow> world" where
  "autoSaveTick w = (if appState w = WRITING then handleSaveDraft w else w)"

text \<open>
  A new session: every cell has its initial value, and the effect of the first render
  sets \<open>hasDraft\<close> when \<open>localStorage\<close> holds a draft.
\<close>

definition newSession :: "world \<Rightarrow> world" where
  "newSession w =
     \<lparr>appState = SETUP, bookDetails = None, bookOutline = None, bookContent = [],
      bookMatter = None, currentPageContent = [], currentChapterIndex = 0,
      currentPageIndex = 0, viewedChapterIndex = 0, viewedPageIndex = 0,
      isLoading = False, error = None, hasDraft = (draftStore w \<noteq> None),
      draftStore = draftStore w, storageFull = storageFull w, calls = calls w\<rparr>"

subsection \<open>WritingView\<close>

text \<open>
  The view gets the view cursor as \<open>chapterIndex\<close>, \<open>pageIndex\<close>. A disabled button
  does not call its handler.
\<close>

definition isViewingLatestPage :: "world \<Rightarrow> bool" where
  "isViewingLatestPage w =
     (viewedChapterIndex w = currentChapterIndex w \<and> viewedPageIndex w = currentPageIndex w)"

definition isFirstPageOfBook :: "world \<Rightarrow> bool" where
  "isFirstPageOfBook w = (viewedChapterIndex w = 0 \<and> viewedPageIndex w = 0)"

definition approveButtonDisabled :: "world \<Rightarrow> bool" where
  "approveButtonDisabled w = (isLoading w \<or> \<not> isViewingLatestPage w)"

definition clickApproveAndContinue :: "ai \<Rightarrow> world \<Rightarrow> world" where
  "clickApproveAndContinue a w =
     (if approveButtonDisabled w then w else dispatch (handleApproveAndContinue a) w)"

definition clickNavigate :: "direction \<Rightarrow> world \<Rightarrow> world" where
  "clickNavigate dir w =
     (if (case dir of Prev \<Rightarrow> isFirstPageOfBook w | Next \<Rightarrow> isViewingLatestPage w)
          \<or> isLoading w
      then w else dispatch (handleNavigate dir) w)"

section \<open>Cursor order and reachable states\<close>

text \<open>
  Positions are (chapter, page) pairs, ordered chapter first. \<open>notAhead\<close> is the
  negation of the test \<open>isNavigatingTooFar\<close> of \<open>handleNavigate\<close>.
\<close>

definition notAhead :: "int \<times> int \<Rightarrow> int \<times> int \<Rightarrow> bool" where
  "notAhead v c = (fst v < fst c \<or> (fst v = fst c \<and> snd v \<le> snd c))"

definition behind :: "int \<times> int \<Rightarrow> int \<times> int \<Rightarrow> bool" where
  "behind v c = (fst v < fst c \<or> (fst v = fst c \<and> snd v < snd c))"

definition viewCursor :: "world \<Rightarrow> int \<times> int" where
  "viewCursor w = (viewedChapterIndex w, viewedPageIndex w)"

definition writeCursor :: "world \<Rightarrow> int \<times> int" where
  "writeCursor w = (currentChapterIndex w, currentPageIndex w)"

text \<open>
  The states the controller can reach from the start of the Writing phase: the state
  after a successful \<open>handleStartWriting\<close> in the Outline phase (which is entered through
  \<open>handleStartOutlineGeneration\<close>, with the draft removed), and from there any handler,
  with any generator, each followed by the render; the timer; a new session over the same
  \<open>localStorage\<close>; the storage becoming full or free.
\<close>

inductive reachable :: "world \<Rightarrow> bool" where
  start:
    "appState w0 = OUTLINE \<Longrightarrow> draftStore w0 = None \<Longrightarrow>
     appState (handleStartWriting a w0) = WRITING \<Longrightarrow>
     reachable (dispatch (handleStartWriting a) w0)"
| approve: "reachable w \<Longrightarrow> reachable (dispatch (handleApproveAndContinue a) w)"
| navigate: "reachable w \<Longrightarrow> reachable (dispatch (handleNavigate dir) w)"
| revise: "reachable w \<Longrightarrow> reachable (dispatch (handleRevisePage a feedback) w)"
| save: "reachable w \<Longrightarrow> reachable (dispatch handleSaveDraft w)"
| tick: "reachable w \<Longrightarrow> reachable (dispatch autoSaveTick w)"
| finalRevision: "reachable w \<Longrightarrow> reachable (dispatch (handleFinalRevision a feedback) w)"
| startOver: "reachable w \<Longrightarrow> reachable (dispatch handleStartOver w)"
| load: "reachable w \<Longrightarrow> reachable (dispatch handleLoadDraft w)"
| newOutline:
    "reachable w \<Longrightarrow> reachable (dispatch (handleStartOutlineGeneration a details) w)"
| reviseOutline: "reachable w \<Longrightarrow> reachable (dispatch (handleReviseOutline a feedback) w)"
| startWriting: "reachable w \<Longrightarrow> reachable (dispatch (handleStartWriting a) w)"
| autoWrite: "reachable w \<Longrightarrow> reachable (dispatch (handleStartAutomaticWriting a) w)"
| session: "reachable w \<Longrightarrow> reachable (newSession w)"
| storage: "reachable w \<Longrightarrow> reachable (w\<lparr>storageFull := full\<rparr>)"

text \<open>The view cursor a snapshot gives when it is loaded.\<close>

definition loadedViewCursor :: "SavedState \<Rightarrow> int \<times> int" where
  "loadedViewCursor s =
     ((case savedViewedChapterIndex s of Some v \<Rightarrow> v | None \<Rightarrow> savedCurrentChapterIndex s),
      (case savedViewedPageIndex s of Some v \<Rightarrow> v | None \<Rightarrow> savedCurrentPageIndex s))"

definition draftInOrder :: "draft option \<Rightarrow> bool" where
  "draftInOrder d =
     (case d of
        Some (Draft s) \<Rightarrow>
          notAhead (loadedViewCursor s) (savedCurrentChapterIndex s, savedCurrentPageIndex s)
      | _ \<Rightarrow> True)"

definition inOrder :: "world \<Rightarrow> bool" where
  "inOrder w = (notAhead (viewCursor w) (writeCursor w) \<and> draftInOrder (draftStore w))"


text \<open>
  The \<open>required\<close> lists of the response schemas that \<open>generateFrontMatter\<close> and
  \<open>generateBackMatter\<close> send with their requests, and of \<open>bookMatterSchema\<close>.
\<close>

definition frontMatterRequired :: "BookMatter \<Rightarrow> bool" where
  "frontMatterRequired m =
     (copyright m \<noteq> None \<and> dedication m \<noteq> None \<and> acknowledgments m \<noteq> None \<and>
      introduction m \<noteq> None)"

definition backMatterRequired :: "BookMatter \<Rightarrow> bool" where
  "backMatterRequired m =
     (conclusion m \<noteq> None \<and> appendix m \<noteq> None \<and> glossary m \<noteq> None \<and>
      authorBio m \<noteq> None)"

definition bookMatterRequired :: "BookMatter \<Rightarrow> bool" where
  "bookMatterRequired m = (frontMatterRequired m \<and> backMatterRequired m)"

text \<open>Which of the eight sections an object has, in the order of \<open>BookMatter\<close>.\<close>

definition populated :: "BookMatter \<Rightarrow> bool list" where
  "populated m =
     [copyright m \<noteq> None, dedication m \<noteq> None, acknowledgments m \<noteq> None,
      introduction m \<noteq> None, conclusion m \<noteq> None, appendix m \<noteq> None,
      glossary m \<noteq> None, authorBio m \<noteq> None]"

section \<open>Example inputs\<close>

definition sampleDetails :: BookDetails where
  "sampleDetails =
     \<lparr>theme = ''tea'', genre = NonFiction, audience = ''everyone'', writingStyle = Hybrid,
      paragraphLength = Standard, chapterIdeas = [], penName = ''A. Ray'',
      numChapters = 2, numPagesPerChapter = 2, language = English\<rparr>"

definition sampleOutline :: BookOutline where
  "sampleOutline =
     \<lparr>titleOptions = [''Tea''], summary = ''About tea.'',
      chapters = [\<lparr>title = ''Leaves'', description = ''The plant.''\<rparr>,
                  \<lparr>title = ''Water'', description = ''The brew.''\<rparr>]\<rparr>"

definition frontSections :: BookMatter where
  "frontSections =
     noMatter\<lparr>copyright := Some ''(c) A. Ray'', dedication := Some ''To you.'',
       acknowledgments := Some ''Thanks.'', introduction := Some ''Why tea.''\<rparr>"

definition backSections :: BookMatter where
  "backSections =
     noMatter\<lparr>conclusion := Some ''Drink tea.'', appendix := Some [],
       glossary := Some [], authorBio := Some ''A. Ray drinks tea.''\<rparr>"

text \<open>A generator that answers every request, and one whose every call is rejected.\<close>

definition helpfulAi :: ai where
  "helpfulAi =
     \<lparr>outlineReply = (\<lambda>d. Parsed sampleOutline),
      revisedOutlineReply = (\<lambda>d ol fb. Parsed ol),
      pageReply = (\<lambda>d ol c p prev total. Inr ''more text''),
      revisedPageReply = (\<lambda>original fb d. Inr ''better text''),
      frontMatterReply = (\<lambda>d ol. Parsed frontSections),
      backMatterReply = (\<lambda>d ol bc. Parsed backSections),
      fullRevisionReply = (\<lambda>d ol m bc fb. Parsed (noMatter, []))\<rparr>"

definition rejectingAi :: ai where
  "rejectingAi =
     \<lparr>outlineReply = (\<lambda>d. Rejected ''503''),
      revisedOutlineReply = (\<lambda>d ol fb. Rejected ''503''),
      pageReply = (\<lambda>d ol c p prev total. Inl ''503''),
      revisedPageReply = (\<lambda>original fb d. Inl ''503''),
      frontMatterReply = (\<lambda>d ol. Rejected ''503''),
      backMatterReply = (\<lambda>d ol bc. Rejected ''503''),
      fullRevisionReply = (\<lambda>d ol m bc fb. Rejected ''503'')\<rparr>"

text \<open>The Outline phase of a two by two book, and the state right after
  \<open>handleStartWriting\<close>: the first page is in the buffer, nothing is committed.\<close>

definition outlineWorld :: world where
  "outlineWorld =
     \<lparr>appState = OUTLINE, bookDetails = Some sampleDetails,
      bookOutline = Some sampleOutline, bookContent = [], bookMatter = None,
      currentPageContent = [], currentChapterIndex = 0, currentPageIndex = 0,
      viewedChapterIndex = 0, viewedPageIndex = 0, isLoading = False, error = None,
      hasDraft = False, draftStore = None, storageFull = False, calls = []\<rparr>"

definition startedWorld :: world where
  "startedWorld =
     outlineWorld\<lparr>appState := WRITING, bookContent := [Val [], Val []],
       currentPageContent := ''page one''\<rparr>"

text \<open>The first page approved, the second in the buffer; and the same book with the
  view moved back to the first page (\<open>handleNavigate\<close> shows the committed text).\<close>

definition secondPageWorld :: world where
  "secondPageWorld =
     startedWorld\<lparr>bookContent := [Val [Val ''page one''], Val []],
       currentPageContent := ''page two'', currentPageIndex := 1, viewedPageIndex := 1\<rparr>"

definition reviewingWorld :: world where
  "reviewingWorld = secondPageWorld\<lparr>currentPageContent := ''page one'', viewedPageIndex := 0\<rparr>"

text \<open>A run of the controller: the writing is started, the first page approved, and
  the view moved back to it.\<close>

definition firstApproved :: world where
  "firstApproved =
     dispatch (handleApproveAndContinue helpfulAi)
       (dispatch (handleStartWriting helpfulAi) outlineWorld)"

definition lookingBack :: world where
  "lookingBack = dispatch (handleNavigate Prev) firstApproved"

text \<open>A finished two by two book; a generator whose revision names a page beyond the
  end of chapter 1, and one that revises the conclusion and one page.\<close>

definition finishedWorld :: world where
  "finishedWorld =
     outlineWorld\<lparr>appState := FINAL,
       bookContent := [Val [Val ''1.1'', Val ''1.2''], Val [Val ''2.1'', Val ''2.2'']],
       bookMatter := Some (spreadMatter frontSections backSections),
       currentPageContent := ''2.2'', currentChapterIndex := 1, currentPageIndex := 1,
       viewedChapterIndex := 1, viewedPageIndex := 1\<rparr>"

definition offPageAi :: ai where
  "offPageAi =
     helpfulAi\<lparr>fullRevisionReply :=
       (\<lambda>d ol m bc fb.
          Parsed (noMatter, [\<lparr>chapterIndex = 0, pageIndex = 3, newPageContent = ''Y''\<rparr>]))\<rparr>"

definition editorAi :: ai where
  "editorAi =
     helpfulAi\<lparr>fullRevisionReply :=
       (\<lambda>d ol m bc fb.
          Parsed (noMatter\<lparr>conclusion := Some ''X''\<rparr>,
                  [\<lparr>chapterIndex = 1, pageIndex = 2, newPageContent = ''Y''\<rparr>]))\<rparr>"

definition patchedWorld :: world where
  "patchedWorld = dispatch (handleFinalRevision offPageAi ''tighten chapter 1'') finishedWorld"

text \<open>A session that finds a draft of an older version, without a view cursor.\<close>

definition oldDraft :: SavedState where
  "oldDraft =
     \<lparr>savedAppState = WRITING, savedBookDetails = sampleDetails,
      savedBookOutline = sampleOutline,
      savedBookContent = [Val [Val ''page one''], Val []], savedBookMatter = None,
      savedCurrentPageContent = ''page two'', savedCurrentChapterIndex = 0,
      savedCurrentPageIndex = 1, savedViewedChapterIndex = None,
      savedViewedPageIndex = None\<rparr>"

definition returningWorld :: world where
  "returningWorld = newSession (outlineWorld\<lparr>draftStore := Some (Draft oldDraft)\<rparr>)"

text \<open>The revised book of \<open>patchedWorld\<close>, loaded in a new session: its hole is now
  \<open>null\<close>.\<close>

definition reloadedWorld :: world where
  "reloadedWorld = dispatch handleLoadDraft (newSession patchedWorld)"

text \<open>A generator that answers a request for two chapters with one.\<close>

definition shortOutline :: BookOutline where
  "shortOutline =
     \<lparr>titleOptions = [''Tea''], summary = ''About tea.'',
      chapters = [\<lparr>title = ''Leaves'', description = ''The plant.''\<rparr>]\<rparr>"

definition miscountingAi :: ai where
  "miscountingAi =
     helpfulAi\<lparr>outlineReply := (\<lambda>d. Parsed shortOutline),
       revisedOutlineReply := (\<lambda>d ol fb. Parsed shortOutline)\<rparr>"

text \<open>Generators that fail on the second page of the first chapter, and on the back
  matter.\<close>

definition stallingAi :: ai where
  "stallingAi =
     helpfulAi\<lparr>pageReply :=
       (\<lambda>d ol c p prev total. if c = 0 \<and> p = 1 then Inl ''503'' else Inr ''more text'')\<rparr>"

definition noBackMatterAi :: ai where
  "noBackMatterAi = helpfulAi\<lparr>backMatterReply := (\<lambda>d ol bc. Rejected ''503'')\<rparr>"

text \<open>A generator whose front matter reply has the copyright page only.\<close>

definition oneKeyAi :: ai where
  "oneKeyAi =
     helpfulAi\<lparr>frontMatterReply :=
       (\<lambda>d ol. Parsed (noMatter\<lparr>copyright := Some ''(c) A. Ray''\<rparr>))\<rparr>"

text \<open>The last page of the book in the buffer.\<close>

definition lastPageWorld :: world where
  "lastPageWorld =
     startedWorld\<lparr>bookContent := [Val [Val ''1.1'', Val ''1.2''], Val [Val ''2.1'']],
       currentPageContent := ''2.2'', currentChapterIndex := 1, currentPageIndex := 1,
       viewedChapterIndex := 1, viewedPageIndex := 1\<rparr>"

section \<open>Arrays: a read after a write\<close>

lemmas sample_defs = startedWorld_def outlineWorld_def sampleDetails_def sampleOutline_def
  helpfulAi_def rejectingAi_def frontSections_def backSections_def noMatter_def

lemmas array_defs = copy_content_def spreadChapters_def spreadPages_def commit_page_def
  ensure_chapter_def set_page_def js_get_def js_set_def get_page_def

lemma nth_extend:
  "length xs \<le> n \<Longrightarrow> k \<le> n \<Longrightarrow>
   (xs @ replicate (n - length xs) Absent @ [Val v]) ! k =
     (if k = n then Val v else if k < length xs then xs ! k else Absent)"
  by (simp add: nth_append) arith

lemma js_get_js_set:
  assumes "0 \<le> i"
  shows "js_get (js_set xs i v) j = (if j = i then Val v else js_get xs j)"
proof (cases "i < int (length xs)")
  case True
  with assms have "js_set xs i v = xs[nat i := Val v]"
    by (simp add: js_set_def)
  moreover have "nat i = nat j \<longleftrightarrow> i = j" if "0 \<le> j"
    using that assms by auto
  ultimately show ?thesis
    using True assms by (simp add: js_get_def nth_list_update)
next
  case False
  let ?n = "nat i"
  let ?ys = "xs @ replicate (?n - length xs) Absent @ [Val v]"
  from False assms have len: "length xs \<le> ?n" by simp
  from False assms have eq: "js_set xs i v = ?ys"
    by (simp add: js_set_def)
  show ?thesis
  proof (cases "0 \<le> j \<and> j \<le> i")
    case True
    then have k: "nat j \<le> ?n" by auto
    have nth: "?ys ! nat j =
        (if nat j = ?n then Val v else if nat j < length xs then xs ! nat j else Absent)"
      by (rule nth_extend[OF len k])
    have "js_get (js_set xs i v) j = (case ?ys ! nat j of Absent \<Rightarrow> Undefined | x \<Rightarrow> x)"
      using True len by (simp add: js_get_def eq)
    also have "\<dots> = (if j = i then Val v else js_get xs j)"
      unfolding nth using True assms by (auto simp: js_get_def)
    finally show ?thesis .
  next
    case False
    then show ?thesis
      using len assms by (auto simp: js_get_def eq)
  qed
qed


lemma js_set_neg: "i < 0 \<Longrightarrow> js_set xs i v = xs"
  by (simp add: js_set_def)

lemma js_get_Val_nonneg: "js_get xs i = Val x \<Longrightarrow> 0 \<le> i"
  by (simp add: js_get_def split: if_splits)

lemma js_get_spreadPages: "js_get (spreadPages pages) i = js_get pages i"
  by (auto simp: js_get_def spreadPages_def split: slot.split)

lemma js_get_spreadChapters:
  "js_get (spreadChapters bc) c =
     (case js_get bc c of Val pages \<Rightarrow> Val (spreadPages pages) | x \<Rightarrow> x)"
  by (auto simp: js_get_def spreadChapters_def split: slot.split)

lemma get_page_spreadChapters: "get_page (spreadChapters bc) c p = get_page bc c p"
  by (simp add: get_page_def js_get_spreadChapters js_get_spreadPages split: slot.split)

lemma get_page_set_page_other:
  assumes "(c', p') \<noteq> (c, p)"
  shows "get_page (set_page bc c p v) c' p' = get_page bc c' p'"
proof (cases "js_get bc c")
  case (Val pages)
  then have c0: "0 \<le> c" by (rule js_get_Val_nonneg)
  have sp: "set_page bc c p v = js_set bc c (js_set pages p v)"
    by (simp add: set_page_def Val)
  show ?thesis
  proof (cases "c' = c")
    case True
    with assms have "p' \<noteq> p" by simp
    then have "js_get (js_set pages p v) p' = js_get pages p'"
      by (cases "0 \<le> p") (simp_all add: js_get_js_set js_set_neg)
    then show ?thesis
      using True c0 Val by (simp add: get_page_def sp js_get_js_set)
  next
    case False
    then show ?thesis
      using c0 by (simp add: get_page_def sp js_get_js_set)
  qed
qed (simp_all add: set_page_def)

lemma get_page_set_page_same:
  assumes "js_get bc c = Val pages" and "0 \<le> p"
  shows "get_page (set_page bc c p v) c p = Val v"
proof -
  from assms(1) have "0 \<le> c" by (rule js_get_Val_nonneg)
  then show ?thesis
    using assms by (simp add: get_page_def set_page_def js_get_js_set)
qed





section \<open>Approve and continue\<close>


lemma approve_last:
  assumes "bookDetails w = Some details" and "bookOutline w = Some outline"
    and "Null \<notin> set (bookContent w)" and "Undefined \<notin> set (bookContent w)"
    and "fst (nextPosition details (currentChapterIndex w, currentPageIndex w))
           \<ge> numChapters details"
    and "generateFrontMatter a details outline = Inr frontData"
    and "generateBackMatter a details outline
           (commit_page (spreadChapters (bookContent w)) (currentChapterIndex w) (currentPageIndex w)
              (currentPageContent w)) = Inr backData"
  shows "handleApproveAndContinue a w =
     saveDraftOf w
       (w\<lparr>bookContent := commit_page (spreadChapters (bookContent w)) (currentChapterIndex w)
                     (currentPageIndex w) (currentPageContent w),
          isLoading := True,
          calls := calls w @ [CallGenerateFrontMatter, CallGenerateBackMatter],
          bookMatter := Some (spreadMatter frontData backData),
          isLoading := False, appState := FINAL\<rparr>)"
  using assms
  by (simp add: handleApproveAndContinue_def copy_content_def Let_def)





section \<open>Approving while an earlier page is viewed\<close>

text \<open>
  Claim C2, as the code has it. The guard is in the view: in a Writing-phase state whose
  view cursor is strictly behind the write cursor, the approve button of \<open>WritingView\<close>
  is disabled, so a click does not reach \<open>handleApproveAndContinue\<close>: no service call is
  made, and the content, both cursors and the page buffer stay as they are.
\<close>

theorem approve_button_guard:
  assumes "appState w = WRITING"
    and "behind (viewCursor w) (writeCursor w)"
  shows "approveButtonDisabled w \<and> clickApproveAndContinue a w = w \<and>
         calls (clickApproveAndContinue a w) = calls w \<and>
         bookContent (clickApproveAndContinue a w) = bookContent w \<and>
         writeCursor (clickApproveAndContinue a w) = writeCursor w \<and>
         viewCursor (clickApproveAndContinue a w) = viewCursor w \<and>
         currentPageContent (clickApproveAndContinue a w) = currentPageContent w"
proof -
  from assms(2) have "\<not> isViewingLatestPage w"
    by (auto simp: behind_def viewCursor_def writeCursor_def isViewingLatestPage_def)
  then have disabled: "approveButtonDisabled w"
    by (simp add: approveButtonDisabled_def)
  then have "clickApproveAndContinue a w = w"
    by (simp add: clickApproveAndContinue_def)
  with disabled show ?thesis by simp
qed

text \<open>
  Claim C2 as stated fails: \<open>handleApproveAndContinue\<close> has no check of its own. Called
  with the view on page (0, 0) and the write cursor on (0, 1), it calls \<open>writePage\<close>,
  overwrites the page at the write cursor with the text on display, and moves both
  cursors and the buffer.
\<close>

theorem approve_unguarded_counterexample:
  "appState reviewingWorld = WRITING \<and>
   behind (viewCursor reviewingWorld) (writeCursor reviewingWorld) \<and>
   calls reviewingWorld = [] \<and>
   calls (handleApproveAndContinue helpfulAi reviewingWorld) = [CallWritePage 1 0] \<and>
   bookContent reviewingWorld = [Val [Val ''page one''], Val []] \<and>
   bookContent (handleApproveAndContinue helpfulAi reviewingWorld)
     = [Val [Val ''page one'', Val ''page one''], Val []] \<and>
   writeCursor reviewingWorld = (0, 1) \<and>
   writeCursor (handleApproveAndContinue helpfulAi reviewingWorld) = (1, 0) \<and>
   viewCursor reviewingWorld = (0, 0) \<and>
   viewCursor (handleApproveAndContinue helpfulAi reviewingWorld) = (1, 0) \<and>
   currentPageContent reviewingWorld = ''page one'' \<and>
   currentPageContent (handleApproveAndContinue helpfulAi reviewingWorld) = ''more text''"
  by (simp add: handleApproveAndContinue_def reviewingWorld_def secondPageWorld_def
      sample_defs array_defs nextPosition_def
      writePage_def handleError_def behind_def viewCursor_def writeCursor_def Let_def)

theorem approve_button_guard_witness:
  "appState reviewingWorld = WRITING \<and>
   behind (viewCursor reviewingWorld) (writeCursor reviewingWorld) \<and>
   approveButtonDisabled reviewingWorld \<and>
   clickApproveAndContinue helpfulAi reviewingWorld = reviewingWorld \<and>
   calls (clickApproveAndContinue helpfulAi reviewingWorld) = []"
proof -
  have phase: "appState reviewingWorld = WRITING"
    and lag: "behind (viewCursor reviewingWorld) (writeCursor reviewingWorld)"
    and log: "calls reviewingWorld = []"
    by (simp_all add: reviewingWorld_def secondPageWorld_def sample_defs behind_def
        viewCursor_def writeCursor_def)
  from approve_button_guard[OF phase lag, of helpfulAi] phase lag log
  show ?thesis by simp
qed

section \<open>The view cursor never leads\<close>

text \<open>Every handler keeps the view cursor at or behind the write cursor, in the state
  and in the stored draft.\<close>

lemma notAhead_refl: "notAhead p p"
  by (simp add: notAhead_def)

lemma inOrder_saveDraftOf:
  assumes "notAhead (viewCursor r) (writeCursor r)" and "inOrder w"
  shows "inOrder (saveDraftOf r w)"
  using assms
  by (auto simp: saveDraftOf_def inOrder_def draftInOrder_def loadedViewCursor_def
      stateToSave_def handleError_def viewCursor_def writeCursor_def
      split: option.splits)

lemma inOrder_handleSaveDraft: "inOrder w \<Longrightarrow> inOrder (handleSaveDraft w)"
  unfolding handleSaveDraft_def by (rule inOrder_saveDraftOf) (simp_all add: inOrder_def)

lemma inOrder_afterRender: "inOrder w \<Longrightarrow> inOrder (afterRender r w)"
  by (simp add: afterRender_def inOrder_handleSaveDraft)

lemma inOrder_autoSaveTick: "inOrder w \<Longrightarrow> inOrder (autoSaveTick w)"
  by (simp add: autoSaveTick_def inOrder_handleSaveDraft)

lemma inOrder_cong:
  assumes "viewCursor w' = viewCursor w" and "writeCursor w' = writeCursor w"
    and "draftStore w' = draftStore w" and "inOrder w"
  shows "inOrder w'"
  using assms by (simp add: inOrder_def)

lemma inOrder_handleNavigate: "inOrder w \<Longrightarrow> inOrder (handleNavigate dir w)"
  by (cases dir)
    (auto simp: handleNavigate_def inOrder_def notAhead_def viewCursor_def writeCursor_def
      Let_def split: option.splits)

lemma inOrder_handleRevisePage: "inOrder w \<Longrightarrow> inOrder (handleRevisePage a feedback w)"
  by (auto simp: handleRevisePage_def inOrder_def viewCursor_def writeCursor_def
      handleError_def Let_def split: option.splits sum.splits)

lemma inOrder_handleFinalRevision:
  "inOrder w \<Longrightarrow> inOrder (handleFinalRevision a feedback w)"
  by (auto simp: handleFinalRevision_def inOrder_def viewCursor_def writeCursor_def
      handleError_def Let_def split: option.splits sum.splits)

lemma inOrder_handleStartOver: "inOrder (handleStartOver w)"
  by (simp add: handleStartOver_def inOrder_def viewCursor_def writeCursor_def
      notAhead_def draftInOrder_def)

lemma inOrder_handleLoadDraft: "inOrder w \<Longrightarrow> inOrder (handleLoadDraft w)"
  by (auto simp: handleLoadDraft_def inOrder_def viewCursor_def writeCursor_def
      handleError_def draftInOrder_def loadedViewCursor_def
      split: option.splits draft.splits)

lemma inOrder_handleStartOutlineGeneration:
  "inOrder w \<Longrightarrow> inOrder (handleStartOutlineGeneration a details w)"
  by (auto simp: handleStartOutlineGeneration_def inOrder_def viewCursor_def writeCursor_def
      handleError_def draftInOrder_def Let_def split: sum.splits)

lemma inOrder_handleReviseOutline:
  "inOrder w \<Longrightarrow> inOrder (handleReviseOutline a feedback w)"
  by (auto simp: handleReviseOutline_def inOrder_def viewCursor_def writeCursor_def
      handleError_def Let_def split: option.splits sum.splits)

lemma inOrder_handleStartWriting: "inOrder w \<Longrightarrow> inOrder (handleStartWriting a w)"
  by (auto simp: handleStartWriting_def inOrder_def viewCursor_def writeCursor_def
      handleError_def notAhead_def Let_def split: option.splits sum.splits)

lemma inOrder_start:
  assumes "appState w0 = OUTLINE" and "draftStore w0 = None"
    and "appState (handleStartWriting a w0) = WRITING"
  shows "inOrder (handleStartWriting a w0)"
  using assms
  by (auto simp: handleStartWriting_def inOrder_def viewCursor_def writeCursor_def
      handleError_def notAhead_def draftInOrder_def Let_def split: option.splits sum.splits)

lemma saveDraftOf_cursors:
  "viewedChapterIndex (saveDraftOf r w) = viewedChapterIndex w"
  "viewedPageIndex (saveDraftOf r w) = viewedPageIndex w"
  "currentChapterIndex (saveDraftOf r w) = currentChapterIndex w"
  "currentPageIndex (saveDraftOf r w) = currentPageIndex w"
  by (simp_all add: saveDraftOf_def handleError_def split: option.split)

lemma saveDraftOf_draftInOrder:
  assumes "notAhead (viewCursor r) (writeCursor r)" and "draftInOrder (draftStore w)"
  shows "draftInOrder (draftStore (saveDraftOf r w))"
  using assms
  by (auto simp: saveDraftOf_def draftInOrder_def loadedViewCursor_def
      stateToSave_def handleError_def viewCursor_def writeCursor_def
      split: option.splits)

lemma inOrder_handleStartAutomaticWriting:
  assumes "inOrder w"
  shows "inOrder (handleStartAutomaticWriting a w)"
proof -
  have view: "notAhead (viewCursor w) (writeCursor w)"
    and store: "draftInOrder (draftStore w)"
    using assms by (simp_all add: inOrder_def)
  have saved: "draftInOrder (draftStore (saveDraftOf w w'))"
    if "draftStore w' = draftStore w" for w'
    using view store that by (intro saveDraftOf_draftInOrder) simp_all
  show ?thesis
    using view store
    by (auto simp: handleStartAutomaticWriting_def inOrder_def Let_def handleError_def
        viewCursor_def writeCursor_def saveDraftOf_cursors
        intro!: saved split: option.split sum.split prod.split)
qed

lemma inOrder_handleApproveAndContinue:
  assumes "inOrder w"
  shows "inOrder (handleApproveAndContinue a w)"
proof -
  have view: "notAhead (viewCursor w) (writeCursor w)"
    and store: "draftInOrder (draftStore w)"
    using assms by (simp_all add: inOrder_def)
  have saved: "draftInOrder (draftStore (saveDraftOf w w'))"
    if "draftStore w' = draftStore w" for w'
    using view store that by (intro saveDraftOf_draftInOrder) simp_all
  show ?thesis
    using view store
    by (auto simp: handleApproveAndContinue_def inOrder_def Let_def handleError_def
        viewCursor_def writeCursor_def saveDraftOf_cursors notAhead_def
        intro!: saved split: option.split sum.split prod.split)
qed

lemma inOrder_newSession: "inOrder w \<Longrightarrow> inOrder (newSession w)"
  by (simp add: newSession_def inOrder_def viewCursor_def writeCursor_def notAhead_def)

lemma inOrder_storage: "inOrder w \<Longrightarrow> inOrder (w\<lparr>storageFull := full\<rparr>)"
  by (simp add: inOrder_def viewCursor_def writeCursor_def)

lemma reachable_inOrder: "reachable w \<Longrightarrow> inOrder w"
proof (induction rule: reachable.induct)
  case (start w0 a)
  then show ?case
    unfolding dispatch_def by (intro inOrder_afterRender inOrder_start)
qed (simp_all add: dispatch_def inOrder_afterRender inOrder_handleApproveAndContinue
      inOrder_handleNavigate inOrder_handleRevisePage inOrder_handleSaveDraft
      inOrder_autoSaveTick inOrder_handleFinalRevision inOrder_handleStartOver
      inOrder_handleLoadDraft inOrder_handleStartOutlineGeneration
      inOrder_handleReviseOutline inOrder_handleStartWriting
      inOrder_handleStartAutomaticWriting inOrder_newSession inOrder_storage)

lemma navigate_next_at_latest:
  "isViewingLatestPage w \<Longrightarrow> handleNavigate Next w = w"
  by (auto simp: handleNavigate_def isViewingLatestPage_def Let_def split: option.splits)

lemma navigate_prev_at_first:
  "isFirstPageOfBook w \<Longrightarrow> handleNavigate Prev w = w"
  by (auto simp: handleNavigate_def isFirstPageOfBook_def Let_def split: option.splits)

lemma firstApproved_cursors:
  "viewCursor firstApproved = (0, 1)" "writeCursor firstApproved = (0, 1)"
  by code_simp+

lemma lookingBack_cursors:
  "viewCursor lookingBack = (0, 0)" "writeCursor lookingBack = (0, 1)"
  by code_simp+

text \<open>
  Claim C3. In every state the controller reaches from the start of the Writing phase,
  the view cursor is at or behind the write cursor in chapter-major, page-minor order;
  \<open>handleNavigate Next\<close> changes nothing when the two cursors are equal, and
  \<open>handleNavigate Prev\<close> changes nothing at position (0, 0).
\<close>

theorem view_never_ahead:
  assumes "reachable w"
  shows "notAhead (viewCursor w) (writeCursor w) \<and>
         (viewCursor w = writeCursor w \<longrightarrow> handleNavigate Next w = w) \<and>
         (viewCursor w = (0, 0) \<longrightarrow> handleNavigate Prev w = w)"
proof (intro conjI impI)
  from reachable_inOrder[OF assms] show "notAhead (viewCursor w) (writeCursor w)"
    by (simp add: inOrder_def)
  show "handleNavigate Next w = w" if "viewCursor w = writeCursor w"
    using that
    by (intro navigate_next_at_latest)
      (simp add: isViewingLatestPage_def viewCursor_def writeCursor_def)
  show "handleNavigate Prev w = w" if "viewCursor w = (0, 0)"
    using that
    by (intro navigate_prev_at_first) (simp add: isFirstPageOfBook_def viewCursor_def)
qed

theorem view_never_ahead_witness:
  "reachable lookingBack \<and> viewCursor lookingBack = (0, 0) \<and>
   writeCursor lookingBack = (0, 1) \<and>
   notAhead (viewCursor lookingBack) (writeCursor lookingBack) \<and>
   handleNavigate Prev lookingBack = lookingBack \<and>
   reachable firstApproved \<and> viewCursor firstApproved = writeCursor firstApproved \<and>
   handleNavigate Next firstApproved = firstApproved"
proof -
  have "appState (handleStartWriting helpfulAi outlineWorld) = WRITING"
    by (simp add: handleStartWriting_def sample_defs writePage_def emptyChapters_def)
  then have "reachable (dispatch (handleStartWriting helpfulAi) outlineWorld)"
    by (intro reachable.start) (simp_all add: outlineWorld_def)
  then have r1: "reachable firstApproved"
    unfolding firstApproved_def by (rule reachable.approve)
  then have r2: "reachable lookingBack"
    unfolding lookingBack_def by (rule reachable.navigate)
  from view_never_ahead[OF r1] view_never_ahead[OF r2] r1 r2
  show ?thesis
    by (simp add: firstApproved_cursors lookingBack_cursors)
qed

section \<open>Saving and loading the draft\<close>







section \<open>The outline\<close>

text \<open>
  Claim C5, as the code has it. \<open>generateOutline\<close> and \<open>reviseOutline\<close> return
  successfully exactly when the reply parses, and what they return is the parsed reply
  as it is: the number of chapters is asked for in the prompt and not checked, so the
  outline has \<open>numChapters\<close> chapters exactly when the reply has. The controller
  stores the outline it gets, as it is.
\<close>

theorem outline_is_the_reply:
  "(generateOutline a details = Inr outline \<longleftrightarrow> outlineReply a details = Parsed outline) \<and>
   (reviseOutline a details original feedback = Inr outline \<longleftrightarrow>
      revisedOutlineReply a details original feedback = Parsed outline) \<and>
   (outlineReply a details = Parsed outline \<longrightarrow>
      bookOutline (handleStartOutlineGeneration a details w) = Some outline \<and>
      bookDetails (handleStartOutlineGeneration a details w) = Some details \<and>
      appState (handleStartOutlineGeneration a details w) = OUTLINE) \<and>
   (bookDetails w = Some details \<longrightarrow> bookOutline w = Some original \<longrightarrow>
    revisedOutlineReply a details original feedback = Parsed outline \<longrightarrow>
      bookOutline (handleReviseOutline a feedback w) = Some outline)"
  by (simp add: generateOutline_def reviseOutline_def parsed_def
      handleStartOutlineGeneration_def handleReviseOutline_def split: reply.split)

text \<open>
  Claim C5 as stated fails: for details with \<open>numChapters = 2\<close> a reply with one chapter
  parses, and both functions return it.
\<close>

theorem outline_length_counterexample:
  "numChapters sampleDetails = 2 \<and>
   generateOutline miscountingAi sampleDetails = Inr shortOutline \<and>
   reviseOutline miscountingAi sampleDetails sampleOutline ''shorter'' = Inr shortOutline \<and>
   length (chapters shortOutline) = 1 \<and>
   int (length (chapters shortOutline)) \<noteq> numChapters sampleDetails"
  by (simp add: generateOutline_def reviseOutline_def parsed_def miscountingAi_def
      shortOutline_def sample_defs)

theorem outline_is_the_reply_witness:
  "outlineReply miscountingAi sampleDetails = Parsed shortOutline \<and>
   generateOutline miscountingAi sampleDetails = Inr shortOutline \<and>
   bookOutline (handleStartOutlineGeneration miscountingAi sampleDetails returningWorld)
     = Some shortOutline \<and>
   appState (handleStartOutlineGeneration miscountingAi sampleDetails returningWorld) = OUTLINE \<and>
   bookDetails outlineWorld = Some sampleDetails \<and>
   bookOutline outlineWorld = Some sampleOutline \<and>
   revisedOutlineReply miscountingAi sampleDetails sampleOutline ''fewer'' = Parsed shortOutline \<and>
   bookOutline (handleReviseOutline miscountingAi ''fewer'' outlineWorld) = Some shortOutline"
proof -
  have replies: "outlineReply miscountingAi sampleDetails = Parsed shortOutline"
    "revisedOutlineReply miscountingAi sampleDetails sampleOutline ''fewer'' = Parsed shortOutline"
    by (simp_all add: miscountingAi_def helpfulAi_def)
  have present: "bookDetails outlineWorld = Some sampleDetails"
    "bookOutline outlineWorld = Some sampleOutline"
    by (simp_all add: outlineWorld_def)
  from outline_is_the_reply[of miscountingAi sampleDetails shortOutline sampleOutline
      "''fewer''" returningWorld]
    outline_is_the_reply[of miscountingAi sampleDetails shortOutline sampleOutline
      "''fewer''" outlineWorld]
    replies present
  show ?thesis by simp
qed

text \<open>The render after a handler changes neither the saved cells nor the log.\<close>

lemma cells_afterRender:
  "savedCells (afterRender r w) = savedCells w" "calls (afterRender r w) = calls w"
  by (simp_all add: afterRender_def handleSaveDraft_def saveDraftOf_def handleError_def
      savedCells_def split: option.split)

text \<open>
  Claim C6, as the code has it. When \<open>generateOutline\<close> fails in the Setup phase, the
  phase is still Setup, the message is shown, and details, outline, content, matter,
  page buffer and cursors are unchanged; the draft in the store has been removed at the
  start of the call (``starting fresh''), whatever the outcome.
\<close>

theorem failed_outline_keeps_setup:
  assumes "appState w = SETUP" and "generateOutline a details = Inl message"
    and "w' = dispatch (handleStartOutlineGeneration a details) w"
  shows "appState w' = SETUP \<and> error w' = Some message \<and> isLoading w' = False \<and>
         savedCells w' = savedCells w \<and>
         calls w' = calls w @ [CallGenerateOutline] \<and>
         draftStore w' = None \<and> hasDraft w' = False"
  using assms
  by (simp add: dispatch_def afterRender_def handleStartOutlineGeneration_def
      handleError_def savedCells_def Let_def)

text \<open>
  Claim C6 as stated fails: a session that found a draft loses it when the outline
  request is rejected.
\<close>

theorem failed_outline_drops_draft_counterexample:
  "appState returningWorld = SETUP \<and>
   draftStore returningWorld = Some (Draft oldDraft) \<and>
   generateOutline rejectingAi sampleDetails = Inl ''503'' \<and>
   appState (dispatch (handleStartOutlineGeneration rejectingAi sampleDetails) returningWorld)
     = SETUP \<and>
   error (dispatch (handleStartOutlineGeneration rejectingAi sampleDetails) returningWorld)
     = Some ''503'' \<and>
   draftStore (dispatch (handleStartOutlineGeneration rejectingAi sampleDetails) returningWorld)
     = None \<and>
   draftStore (handleStartOutlineGeneration rejectingAi sampleDetails returningWorld) = None"
  by code_simp

theorem failed_outline_keeps_setup_witness:
  "appState returningWorld = SETUP \<and>
   generateOutline rejectingAi sampleDetails = Inl ''503'' \<and>
   error (dispatch (handleStartOutlineGeneration rejectingAi sampleDetails) returningWorld)
     = Some ''503'' \<and>
   savedCells (dispatch (handleStartOutlineGeneration rejectingAi sampleDetails) returningWorld)
     = savedCells returningWorld \<and>
   draftStore (dispatch (handleStartOutlineGeneration rejectingAi sampleDetails) returningWorld)
     = None"
proof -
  have phase: "appState returningWorld = SETUP"
    by (simp add: returningWorld_def newSession_def)
  have rejected: "generateOutline rejectingAi sampleDetails = Inl ''503''"
    by (simp add: generateOutline_def parsed_def rejectingAi_def)
  from failed_outline_keeps_setup[OF phase rejected refl] phase rejected
  show ?thesis by simp
qed

section \<open>No draft without details and outline\<close>

text \<open>
  Claim C10. While \<open>bookDetails\<close> or \<open>bookOutline\<close> is \<open>null\<close>, \<open>handleSaveDraft\<close>
  changes nothing: neither the save button nor the auto-save timer writes a snapshot.
\<close>

theorem no_draft_before_outline:
  assumes "bookDetails w = None \<or> bookOutline w = None"
  shows "handleSaveDraft w = w \<and> dispatch handleSaveDraft w = w \<and>
         autoSaveTick w = w \<and> dispatch autoSaveTick w = w \<and>
         draftStore (handleSaveDraft w) = draftStore w \<and>
         draftStore (autoSaveTick w) = draftStore w"
proof -
  from assms have save: "handleSaveDraft w = w"
    by (auto simp: handleSaveDraft_def saveDraftOf_def split: option.split)
  then have tick: "autoSaveTick w = w"
    by (simp add: autoSaveTick_def)
  from save tick show ?thesis
    by (simp add: dispatch_def afterRender_def)
qed

theorem no_draft_before_outline_witness:
  "appState (newSession outlineWorld) = SETUP \<and>
   bookDetails (newSession outlineWorld) = None \<and>
   handleSaveDraft (newSession outlineWorld) = newSession outlineWorld \<and>
   autoSaveTick (newSession outlineWorld) = newSession outlineWorld \<and>
   draftStore (handleSaveDraft (newSession outlineWorld)) = None \<and>
   bookOutline (startedWorld\<lparr>bookOutline := None\<rparr>) = None \<and>
   appState (startedWorld\<lparr>bookOutline := None\<rparr>) = WRITING \<and>
   draftStore (autoSaveTick (startedWorld\<lparr>bookOutline := None\<rparr>)) = None"
proof -
  have none: "bookDetails (newSession outlineWorld) = None \<or>
      bookOutline (newSession outlineWorld) = None"
    and fresh: "appState (newSession outlineWorld) = SETUP"
      "bookDetails (newSession outlineWorld) = None"
      "draftStore (newSession outlineWorld) = None"
    by (simp_all add: newSession_def outlineWorld_def)
  have none': "bookDetails (startedWorld\<lparr>bookOutline := None\<rparr>) = None \<or>
      bookOutline (startedWorld\<lparr>bookOutline := None\<rparr>) = None"
    and writing: "appState (startedWorld\<lparr>bookOutline := None\<rparr>) = WRITING"
      "draftStore (startedWorld\<lparr>bookOutline := None\<rparr>) = None"
    by (simp_all add: startedWorld_def outlineWorld_def)
  from no_draft_before_outline[OF none] no_draft_before_outline[OF none'] fresh writing
  show ?thesis by simp
qed

section \<open>The last page\<close>

lemma saveDraftOf_cells:
  "savedCells (saveDraftOf r w) = savedCells w" "calls (saveDraftOf r w) = calls w"
  by (simp_all add: saveDraftOf_def handleError_def savedCells_def split: option.split)

lemma spreadMatter_required:
  assumes "frontMatterRequired frontData" and "backMatterRequired backData"
  shows "bookMatterRequired (spreadMatter frontData backData)"
  using assms
  by (auto simp: bookMatterRequired_def frontMatterRequired_def backMatterRequired_def
      spreadMatter_def override_def split: option.split)

lemma populated_spreadMatter:
  "populated (spreadMatter frontData backData)
     = map2 (\<or>) (populated frontData) (populated backData)"
  by (auto simp: populated_def spreadMatter_def override_def split: option.split)

text \<open>
  Claim C7, as the code has it. \<open>handleApproveAndContinue\<close> at the last page of the
  last chapter, when the two calls for the final sections succeed: the phase is Final,
  \<open>bookMatter\<close> is the merge of the two replies, the only service calls are
  \<open>generateFrontMatter\<close> and \<open>generateBackMatter\<close> (no \<open>writePage\<close>), and the page buffer
  and the write cursor are unchanged; the render that follows changes none of this. A
  section of \<open>bookMatter\<close> is populated exactly when one of the two replies has it: the
  replies are cast, not checked, so all eight sections are there when the front matter
  reply has its four keys and the back matter reply its four.
\<close>

theorem last_page_finishes_book:
  assumes phase: "appState w = WRITING"
    and details: "bookDetails w = Some details"
    and outline: "bookOutline w = Some outline"
    and arrays: "Null \<notin> set (bookContent w)" "Undefined \<notin> set (bookContent w)"
    and lastPage: "currentChapterIndex w = numChapters details - 1"
      "currentPageIndex w = numPagesPerChapter details - 1"
    and frontOk: "generateFrontMatter a details outline = Inr frontData"
    and backOk: "generateBackMatter a details outline
           (commit_page (spreadChapters (bookContent w)) (currentChapterIndex w)
              (currentPageIndex w) (currentPageContent w)) = Inr backData"
    and w': "w' = handleApproveAndContinue a w"
  shows "appState w' = FINAL \<and>
         bookMatter w' = Some (spreadMatter frontData backData) \<and>
         populated (spreadMatter frontData backData)
           = map2 (\<or>) (populated frontData) (populated backData) \<and>
         (frontMatterRequired frontData \<longrightarrow> backMatterRequired backData \<longrightarrow>
            bookMatterRequired (spreadMatter frontData backData)) \<and>
         calls w' = calls w @ [CallGenerateFrontMatter, CallGenerateBackMatter] \<and>
         currentPageContent w' = currentPageContent w \<and>
         writeCursor w' = writeCursor w \<and>
         savedCells (dispatch (handleApproveAndContinue a) w) = savedCells w' \<and>
         calls (dispatch (handleApproveAndContinue a) w) = calls w'"
proof -
  have "nextPosition details (currentChapterIndex w, currentPageIndex w)
          = (numChapters details, 0)"
    by (simp add: nextPosition_def lastPage)
  then have "fst (nextPosition details (currentChapterIndex w, currentPageIndex w))
           \<ge> numChapters details"
    by simp
  from approve_last[OF details outline arrays this frontOk backOk]
  have eq: "w' = saveDraftOf w
       (w\<lparr>bookContent := commit_page (spreadChapters (bookContent w)) (currentChapterIndex w)
                     (currentPageIndex w) (currentPageContent w),
          isLoading := True,
          calls := calls w @ [CallGenerateFrontMatter, CallGenerateBackMatter],
          bookMatter := Some (spreadMatter frontData backData),
          isLoading := False, appState := FINAL\<rparr>)"
    by (simp add: w')
  have cells: "savedCells w' = savedCells
       (w\<lparr>bookContent := commit_page (spreadChapters (bookContent w)) (currentChapterIndex w)
                     (currentPageIndex w) (currentPageContent w),
          bookMatter := Some (spreadMatter frontData backData), appState := FINAL\<rparr>)"
    by (simp add: eq saveDraftOf_cells) (simp add: savedCells_def)
  have log: "calls w' = calls w @ [CallGenerateFrontMatter, CallGenerateBackMatter]"
    by (simp add: eq saveDraftOf_cells)
  from cells have state: "appState w' = FINAL"
    "bookMatter w' = Some (spreadMatter frontData backData)"
    "currentPageContent w' = currentPageContent w" "writeCursor w' = writeCursor w"
    by (simp_all add: savedCells_def writeCursor_def)
  have rendered: "savedCells (dispatch (handleApproveAndContinue a) w) = savedCells w'"
    "calls (dispatch (handleApproveAndContinue a) w) = calls w'"
    by (simp_all add: dispatch_def cells_afterRender w')
  from state log rendered spreadMatter_required[of frontData backData]
    populated_spreadMatter[of frontData backData]
  show ?thesis
    by simp
qed

text \<open>
  Claim C7 as stated fails: \<open>generateFrontMatter\<close> succeeds with a reply that has the
  copyright page only, the approval of the last page ends in the Final phase, and
  \<open>bookMatter\<close> has five of its eight sections.
\<close>

theorem last_page_five_sections_counterexample:
  "appState lastPageWorld = WRITING \<and> writeCursor lastPageWorld = (1, 1) \<and>
   numChapters sampleDetails = 2 \<and> numPagesPerChapter sampleDetails = 2 \<and>
   generateFrontMatter oneKeyAi sampleDetails sampleOutline
     = Inr (noMatter\<lparr>copyright := Some ''(c) A. Ray''\<rparr>) \<and>
   appState (handleApproveAndContinue oneKeyAi lastPageWorld) = FINAL \<and>
   error (handleApproveAndContinue oneKeyAi lastPageWorld) = None \<and>
   bookMatter (handleApproveAndContinue oneKeyAi lastPageWorld)
     = Some (backSections\<lparr>copyright := Some ''(c) A. Ray''\<rparr>) \<and>
   populated (backSections\<lparr>copyright := Some ''(c) A. Ray''\<rparr>)
     = [True, False, False, False, True, True, True, True] \<and>
   \<not> bookMatterRequired (backSections\<lparr>copyright := Some ''(c) A. Ray''\<rparr>)"
  by code_simp

theorem last_page_finishes_book_witness:
  "appState lastPageWorld = WRITING \<and>
   writeCursor lastPageWorld = (1, 1) \<and>
   numChapters sampleDetails = 2 \<and> numPagesPerChapter sampleDetails = 2 \<and>
   frontMatterRequired frontSections \<and> backMatterRequired backSections \<and>
   appState (handleApproveAndContinue helpfulAi lastPageWorld) = FINAL \<and>
   bookMatter (handleApproveAndContinue helpfulAi lastPageWorld)
     = Some (spreadMatter frontSections backSections) \<and>
   bookMatterRequired (spreadMatter frontSections backSections) \<and>
   calls (handleApproveAndContinue helpfulAi lastPageWorld)
     = [CallGenerateFrontMatter, CallGenerateBackMatter] \<and>
   currentPageContent (handleApproveAndContinue helpfulAi lastPageWorld) = ''2.2''"
proof -
  have phase: "appState lastPageWorld = WRITING"
    and details: "bookDetails lastPageWorld = Some sampleDetails"
    and outline: "bookOutline lastPageWorld = Some sampleOutline"
    and arrays: "Null \<notin> set (bookContent lastPageWorld)"
      "Undefined \<notin> set (bookContent lastPageWorld)"
    and lastPage: "currentChapterIndex lastPageWorld = numChapters sampleDetails - 1"
      "currentPageIndex lastPageWorld = numPagesPerChapter sampleDetails - 1"
    and facts: "writeCursor lastPageWorld = (1, 1)" "calls lastPageWorld = []"
      "currentPageContent lastPageWorld = ''2.2''"
      "numChapters sampleDetails = 2" "numPagesPerChapter sampleDetails = 2"
    by (simp_all add: lastPageWorld_def sample_defs writeCursor_def)
  have frontOk: "generateFrontMatter helpfulAi sampleDetails sampleOutline = Inr frontSections"
    and backOk: "generateBackMatter helpfulAi sampleDetails sampleOutline bc = Inr backSections"
    for bc
    by (simp_all add: generateFrontMatter_def generateBackMatter_def parsed_def helpfulAi_def)
  have schema: "frontMatterRequired frontSections" "backMatterRequired backSections"
    by (simp_all add: frontMatterRequired_def backMatterRequired_def frontSections_def
        backSections_def noMatter_def)
  from last_page_finishes_book[OF phase details outline arrays lastPage frontOk backOk refl]
    phase facts schema
  show ?thesis by simp
qed

section \<open>Automatic writing\<close>

text \<open>
  Claim C8, as the code has it. \<open>handleStartAutomaticWriting\<close> in the Outline phase writes
  no snapshot unless the whole sequence completes: whenever the phase after the call is
  not Final, the Draft Store, \<open>bookMatter\<close> and the phase are what they were. When the
  front matter call fails, or a \<open>writePage\<close> call fails after any number of pages, the
  pages written so far are dropped and \<open>bookContent\<close> is unchanged as well, and the
  message is shown. When the back matter call fails the message is shown and the phase
  stays Outline.
\<close>

theorem auto_write_failure:
  assumes phase: "appState w = OUTLINE"
    and details: "bookDetails w = Some details"
    and outline: "bookOutline w = Some outline"
    and w': "w' = dispatch (handleStartAutomaticWriting a) w"
  shows "(appState w' \<noteq> FINAL \<longrightarrow>
            draftStore w' = draftStore w \<and> bookMatter w' = bookMatter w \<and>
            appState w' = OUTLINE \<and>
            draftStore (handleStartAutomaticWriting a w) = draftStore w) \<and>
         (\<forall>message. generateFrontMatter a details outline = Inl message \<longrightarrow>
            appState w' \<noteq> FINAL \<and> bookContent w' = bookContent w \<and>
            error w' = Some message) \<and>
         (\<forall>frontData noPages message log.
            generateFrontMatter a details outline = Inr frontData \<longrightarrow>
            emptyChapters (numChapters details) = Some noPages \<longrightarrow>
            chapterLoop a details outline 0
              (noPages, None, calls w @ [CallGenerateFrontMatter]) = Inl (message, log) \<longrightarrow>
            appState w' \<noteq> FINAL \<and> bookContent w' = bookContent w \<and>
            error w' = Some message \<and> calls w' = log) \<and>
         (\<forall>frontData noPages allContent previousPage log message.
            generateFrontMatter a details outline = Inr frontData \<longrightarrow>
            emptyChapters (numChapters details) = Some noPages \<longrightarrow>
            chapterLoop a details outline 0
              (noPages, None, calls w @ [CallGenerateFrontMatter])
              = Inr (allContent, previousPage, log) \<longrightarrow>
            generateBackMatter a details outline allContent = Inl message \<longrightarrow>
            appState w' \<noteq> FINAL \<and> error w' = Some message)"
  using phase details outline unfolding w'
  by (auto simp: dispatch_def afterRender_def handleStartAutomaticWriting_def Let_def
      handleError_def saveDraftOf_def handleSaveDraft_def
      split: sum.splits option.splits prod.splits)

text \<open>
  Claim C8 as stated fails when the failing call is the last one: \<open>setBookContent\<close> runs
  before \<open>generateBackMatter\<close>, so after a rejected back matter call \<open>bookContent\<close>
  holds all four generated pages, while the phase is still Outline.
\<close>

theorem auto_write_back_matter_counterexample:
  "appState outlineWorld = OUTLINE \<and> bookContent outlineWorld = [] \<and>
   calls (dispatch (handleStartAutomaticWriting noBackMatterAi) outlineWorld)
     = [CallGenerateFrontMatter, CallWritePage 0 0, CallWritePage 0 1, CallWritePage 1 0,
        CallWritePage 1 1, CallGenerateBackMatter] \<and>
   error (dispatch (handleStartAutomaticWriting noBackMatterAi) outlineWorld) = Some ''503'' \<and>
   appState (dispatch (handleStartAutomaticWriting noBackMatterAi) outlineWorld) = OUTLINE \<and>
   bookContent (dispatch (handleStartAutomaticWriting noBackMatterAi) outlineWorld)
     = [Val [Val ''more text'', Val ''more text''], Val [Val ''more text'', Val ''more text'']] \<and>
   bookContent (dispatch (handleStartAutomaticWriting noBackMatterAi) outlineWorld)
     \<noteq> bookContent outlineWorld"
  by code_simp

theorem auto_write_failure_witness:
  "appState outlineWorld = OUTLINE \<and>
   chapterLoop stallingAi sampleDetails sampleOutline 0
     ([Val [], Val []], None, [CallGenerateFrontMatter])
     = Inl (''503'', [CallGenerateFrontMatter, CallWritePage 0 0, CallWritePage 0 1]) \<and>
   calls (dispatch (handleStartAutomaticWriting stallingAi) outlineWorld)
     = [CallGenerateFrontMatter, CallWritePage 0 0, CallWritePage 0 1] \<and>
   error (dispatch (handleStartAutomaticWriting stallingAi) outlineWorld) = Some ''503'' \<and>
   bookContent (dispatch (handleStartAutomaticWriting stallingAi) outlineWorld)
     = bookContent outlineWorld \<and>
   bookMatter (dispatch (handleStartAutomaticWriting stallingAi) outlineWorld)
     = bookMatter outlineWorld \<and>
   draftStore (dispatch (handleStartAutomaticWriting stallingAi) outlineWorld)
     = draftStore outlineWorld \<and>
   appState (dispatch (handleStartAutomaticWriting stallingAi) outlineWorld) = OUTLINE"
proof -
  have phase: "appState outlineWorld = OUTLINE"
    and details: "bookDetails outlineWorld = Some sampleDetails"
    and outline: "bookOutline outlineWorld = Some sampleOutline"
    and log: "calls outlineWorld = []"
    by (simp_all add: outlineWorld_def)
  have frontOk: "generateFrontMatter stallingAi sampleDetails sampleOutline = Inr frontSections"
    by (simp add: generateFrontMatter_def parsed_def stallingAi_def helpfulAi_def)
  have chapters: "emptyChapters (numChapters sampleDetails) = Some [Val [], Val []]"
    by code_simp
  have stalled: "chapterLoop stallingAi sampleDetails sampleOutline 0
     ([Val [], Val []], None, [CallGenerateFrontMatter])
     = Inl (''503'', [CallGenerateFrontMatter, CallWritePage 0 0, CallWritePage 0 1])"
    by code_simp
  note failure = auto_write_failure[OF phase details outline refl, of stallingAi]
  from failure frontOk chapters stalled log
  have
    "appState (dispatch (handleStartAutomaticWriting stallingAi) outlineWorld) \<noteq> FINAL \<and>
     bookContent (dispatch (handleStartAutomaticWriting stallingAi) outlineWorld)
       = bookContent outlineWorld \<and>
     error (dispatch (handleStartAutomaticWriting stallingAi) outlineWorld) = Some ''503'' \<and>
     calls (dispatch (handleStartAutomaticWriting stallingAi) outlineWorld)
       = [CallGenerateFrontMatter, CallWritePage 0 0, CallWritePage 0 1]"
    by simp
  with failure phase stalled show ?thesis
    by simp
qed

section \<open>The final revision\<close>

lemma firstThrown_None: "firstThrown xs = None \<longleftrightarrow> (\<forall>x \<in> set xs. x = None)"
  by (induction xs rule: firstThrown.induct) simp_all

lemma promptError_None:
  assumes "promptError bc = None"
  shows "Null \<notin> set bc" and "Undefined \<notin> set bc"
proof -
  from assms have all: "\<forall>x \<in> set bc. chapterPrompt x = None"
    by (simp add: promptError_def firstThrown_None)
  show "Null \<notin> set bc"
  proof
    assume "Null \<in> set bc"
    with all have "chapterPrompt (Null :: string js_array slot) = None" by blast
    then show False by (simp add: chapterPrompt_def)
  qed
  show "Undefined \<notin> set bc"
  proof
    assume "Undefined \<in> set bc"
    with all have "chapterPrompt (Undefined :: string js_array slot) = None" by blast
    then show False by (simp add: chapterPrompt_def)
  qed
qed

lemma reviseFullBook_Inr:
  assumes "reviseFullBook a details outline matter content feedback = Inr result"
  shows "promptError content = None"
  using assms by (simp add: reviseFullBook_def split: option.splits)

text \<open>
  When the prompt cannot be built, \<open>handleFinalRevision\<close> shows the TypeError and
  changes neither matter nor content: so it is for the book that was saved with a hole
  and loaded again.
\<close>

lemma final_revision_prompt_error:
  assumes "bookDetails w = Some details" and "bookOutline w = Some outline"
    and "bookMatter w = Some matter" and "promptError (bookContent w) = Some message"
  shows "handleFinalRevision a feedback w =
           w\<lparr>isLoading := False, error := Some message,
             calls := calls w @ [CallReviseFullBook]\<rparr>"
  using assms
  by (simp add: handleFinalRevision_def reviseFullBook_def handleError_def Let_def)

lemma final_revision_on_reloaded:
  "get_page (bookContent reloadedWorld) 0 2 = Null \<and>
   error (handleFinalRevision editorAi ''more'' reloadedWorld)
     = Some ''Cannot read properties of null (reading 'substring')'' \<and>
   bookMatter (handleFinalRevision editorAi ''more'' reloadedWorld) = bookMatter reloadedWorld \<and>
   bookContent (handleFinalRevision editorAi ''more'' reloadedWorld)
     = bookContent reloadedWorld"
  by code_simp

text \<open>
  Claim C9. In a Final-phase state (details, outline and matter present), when
  \<open>reviseFullBook\<close> returns a result: a \<open>revisedMatter\<close> with the conclusion only changes
  the conclusion of \<open>bookMatter\<close> and leaves the other seven sections as they were; a
  \<open>revisedContent\<close> of one change, whose chapter index names a chapter of the content,
  leaves every page but the one it names as it was, and puts the new text on that page
  (a negative page index names no page: the write goes to a property of the array). The
  phase stays Final.
\<close>

theorem final_revision_patches:
  assumes phase: "appState w = FINAL"
    and details: "bookDetails w = Some details"
    and outline: "bookOutline w = Some outline"
    and matter: "bookMatter w = Some matter"
    and reply: "reviseFullBook a details outline matter (bookContent w) feedback
                  = Inr (revisedMatter, revisedContent)"
    and w': "w' = handleFinalRevision a feedback w"
  shows "(\<forall>x. revisedMatter = noMatter\<lparr>conclusion := Some x\<rparr> \<longrightarrow>
            bookMatter w' = Some (matter\<lparr>conclusion := Some x\<rparr>)) \<and>
         (\<forall>change pages.
            revisedContent = [change] \<longrightarrow>
            js_get (bookContent w) (chapterIndex change) = Val pages \<longrightarrow>
            (\<forall>c p. (c, p) \<noteq> (chapterIndex change, pageIndex change) \<longrightarrow>
               get_page (bookContent w') c p = get_page (bookContent w) c p) \<and>
            (0 \<le> pageIndex change \<longrightarrow>
               get_page (bookContent w') (chapterIndex change) (pageIndex change)
                 = Val (newPageContent change))) \<and>
         appState w' = FINAL \<and> error w' = None \<and>
         savedCells (dispatch (handleFinalRevision a feedback) w) = savedCells w'"
proof -
  from reply have "promptError (bookContent w) = None"
    by (rule reviseFullBook_Inr)
  then have arrays: "Null \<notin> set (bookContent w)" "Undefined \<notin> set (bookContent w)"
    by (rule promptError_None)+
  have eq: "w' = w\<lparr>isLoading := True, error := None,
                   calls := calls w @ [CallReviseFullBook],
                   bookMatter := Some (spreadMatter matter revisedMatter),
                   bookContent :=
                     foldl applyChange (spreadChapters (bookContent w)) revisedContent\<rparr>"
    using details outline matter arrays reply
    by (simp add: w' handleFinalRevision_def copy_content_def Let_def)
  have conclusionOnly: "spreadMatter matter (noMatter\<lparr>conclusion := Some x\<rparr>)
      = matter\<lparr>conclusion := Some x\<rparr>" for x
    by (simp add: spreadMatter_def noMatter_def override_def)
  show ?thesis
  proof (intro conjI allI impI)
    show "bookMatter w' = Some (matter\<lparr>conclusion := Some x\<rparr>)"
      if "revisedMatter = noMatter\<lparr>conclusion := Some x\<rparr>" for x
      by (simp add: eq that conclusionOnly)
    show "get_page (bookContent w') (chapterIndex change) (pageIndex change)
              = Val (newPageContent change)"
      if "revisedContent = [change]"
        "js_get (bookContent w) (chapterIndex change) = Val pages"
        "0 \<le> pageIndex change" for change pages
    proof -
      from that(2) have "js_get (spreadChapters (bookContent w)) (chapterIndex change)
          = Val (spreadPages pages)"
        by (simp add: js_get_spreadChapters)
      from get_page_set_page_same[OF this that(3)] show ?thesis
        by (simp add: eq that(1) applyChange_def)
    qed
    show "get_page (bookContent w') c p = get_page (bookContent w) c p"
      if "revisedContent = [change]" "(c, p) \<noteq> (chapterIndex change, pageIndex change)"
      for change c p
      using get_page_set_page_other[OF that(2)]
      by (simp add: eq that(1) applyChange_def get_page_spreadChapters)
    show "appState w' = FINAL"
      by (simp add: eq phase)
    show "error w' = None"
      by (simp add: eq)
    show "savedCells (dispatch (handleFinalRevision a feedback) w) = savedCells w'"
      by (simp add: dispatch_def cells_afterRender w')
  qed
qed

theorem final_revision_patches_witness:
  "appState finishedWorld = FINAL \<and>
   bookMatter finishedWorld = Some (spreadMatter frontSections backSections) \<and>
   reviseFullBook editorAi sampleDetails sampleOutline
       (spreadMatter frontSections backSections) (bookContent finishedWorld) ''more''
     = Inr (noMatter\<lparr>conclusion := Some ''X''\<rparr>,
            [\<lparr>chapterIndex = 1, pageIndex = 2, newPageContent = ''Y''\<rparr>]) \<and>
   bookMatter (handleFinalRevision editorAi ''more'' finishedWorld)
     = Some ((spreadMatter frontSections backSections)\<lparr>conclusion := Some ''X''\<rparr>) \<and>
   get_page (bookContent (handleFinalRevision editorAi ''more'' finishedWorld)) 1 2 = Val ''Y'' \<and>
   get_page (bookContent (handleFinalRevision editorAi ''more'' finishedWorld)) 1 1
     = get_page (bookContent finishedWorld) 1 1 \<and>
   get_page (bookContent (handleFinalRevision editorAi ''more'' finishedWorld)) 0 0
     = get_page (bookContent finishedWorld) 0 0"
proof -
  have phase: "appState finishedWorld = FINAL"
    and details: "bookDetails finishedWorld = Some sampleDetails"
    and outline: "bookOutline finishedWorld = Some sampleOutline"
    and matter: "bookMatter finishedWorld = Some (spreadMatter frontSections backSections)"
    by (simp_all add: finishedWorld_def outlineWorld_def)
  have prompt: "promptError (bookContent finishedWorld) = None"
    by code_simp
  have reply: "reviseFullBook editorAi sampleDetails sampleOutline
       (spreadMatter frontSections backSections) (bookContent finishedWorld) ''more''
     = Inr (noMatter\<lparr>conclusion := Some ''X''\<rparr>,
            [\<lparr>chapterIndex = 1, pageIndex = 2, newPageContent = ''Y''\<rparr>])"
    by (simp add: reviseFullBook_def prompt parsed_def editorAi_def)
  have valid: "js_get (bookContent finishedWorld)
      (chapterIndex \<lparr>chapterIndex = 1, pageIndex = 2, newPageContent = ''Y''\<rparr>)
      = Val [Val ''2.1'', Val ''2.2'']"
    by (simp add: finishedWorld_def js_get_def)
  note patches = final_revision_patches[OF phase details outline matter reply refl]
  from patches have "bookMatter (handleFinalRevision editorAi ''more'' finishedWorld)
     = Some ((spreadMatter frontSections backSections)\<lparr>conclusion := Some ''X''\<rparr>)"
    by blast
  moreover from patches valid
  have "get_page (bookContent (handleFinalRevision editorAi ''more'' finishedWorld)) 1 2
      = Val ''Y''"
    "get_page (bookContent (handleFinalRevision editorAi ''more'' finishedWorld)) 1 1
     = get_page (bookContent finishedWorld) 1 1"
    "get_page (bookContent (handleFinalRevision editorAi ''more'' finishedWorld)) 0 0
     = get_page (bookContent finishedWorld) 0 0"
    by fastforce+
  ultimately show ?thesis
    using phase matter reply by simp
qed

end
